theory Spec2Isabelle
  imports Complex_Main
begin

section \<open>JavaScript strings and numbers, as far as the multisender uses them\<close>

text \<open>
  A JavaScript string is modelled as a \<^typ>\<open>string\<close>: a list of code units below 256
  (the Latin-1 range). \<open>length\<close> is the JavaScript \<open>length\<close> of such a string.
\<close>

definition startsWith :: "string \<Rightarrow> string \<Rightarrow> bool" where
  "startsWith s p = (take (length p) s = p)"

text \<open>\<open>String.prototype.includes\<close>: the pattern occurs somewhere in the string.\<close>

fun string_includes :: "string \<Rightarrow> string \<Rightarrow> bool" where
  "string_includes [] p = (p = [])"
| "string_includes (c # s) p = (startsWith (c # s) p \<or> string_includes s p)"

text \<open>
  White space and line terminators of ECMAScript below 256:
  TAB, LF, VT, FF, CR, SPACE and NO-BREAK SPACE.
\<close>

definition isWhiteSpace :: "char \<Rightarrow> bool" where
  "isWhiteSpace c = ((of_char c :: nat) \<in> {9, 10, 11, 12, 13, 32, 160})"

definition trimStart :: "string \<Rightarrow> string" where
  "trimStart s = dropWhile isWhiteSpace s"

definition trim :: "string \<Rightarrow> string" where
  "trim s = rev (dropWhile isWhiteSpace (rev (dropWhile isWhiteSpace s)))"

text \<open>
  \<open>toLowerCase\<close>: the letters A to Z and the Latin-1 capitals U+00C0 to U+00DE
  (without the multiplication sign U+00D7) move up by 32, which sets bit 5 of the
  code unit; every other code unit below 256 is its own lower case.
\<close>

definition toLowerCase_char :: "char \<Rightarrow> char" where
  "toLowerCase_char c =
     (let n = (of_char c :: nat)
      in if (65 \<le> n \<and> n \<le> 90) \<or> (192 \<le> n \<and> n \<le> 222 \<and> n \<noteq> 215)
         then (case c of Char b0 b1 b2 b3 b4 b5 b6 b7 \<Rightarrow> Char b0 b1 b2 b3 b4 True b6 b7)
         else c)"

definition toLowerCase :: "string \<Rightarrow> string" where
  "toLowerCase s = map toLowerCase_char s"

text \<open>
  \<open>String.prototype.split\<close> with a one-character separator: the result is never
  empty, and an empty string gives one empty field.
\<close>

fun split :: "char \<Rightarrow> string \<Rightarrow> string list" where
  "split sep [] = [[]]"
| "split sep (c # s) =
     (if c = sep then [] # split sep s
      else (case split sep s of [] \<Rightarrow> [[c]] | w # ws \<Rightarrow> (c # w) # ws))"

text \<open>
  The result of \<open>parseFloat\<close>. \<open>Num q\<close> carries the mathematical value \<open>q\<close> of the
  decimal literal that was read; the double that JavaScript returns is \<open>q\<close> rounded to
  nearest, ties to even. The code only asks two questions of that double, \<open>isNaN\<close> and
  \<open>\<le> 0\<close>, and both are decided from \<open>q\<close>: the double is zero exactly when
  \<open>\<bar>q\<bar> \<le> 2 ^ -1075\<close> (half of the smallest subnormal, the tie going to zero), and a
  value that overflows keeps its sign as an infinity.
\<close>

datatype number = NaN | Num rat | Infinity bool

definition isDigit :: "char \<Rightarrow> bool" where
  "isDigit c = (48 \<le> (of_char c :: nat) \<and> (of_char c :: nat) \<le> 57)"

definition digitsValue :: "string \<Rightarrow> nat" where
  "digitsValue ds = foldl (\<lambda>a c. 10 * a + (of_char c - 48)) 0 ds"

text \<open>
  The optional exponent part: \<open>e\<close> or \<open>E\<close>, an optional sign and at least one digit.
  When no digit follows, the exponent indicator is not part of the literal.
\<close>

definition exponentPart :: "string \<Rightarrow> int" where
  "exponentPart s =
     (case s of
        [] \<Rightarrow> 0
      | e # r \<Rightarrow>
          if e = CHR ''e'' \<or> e = CHR ''E'' then
            (case r of
               [] \<Rightarrow> 0
             | sg # r' \<Rightarrow>
                 if sg = CHR ''-'' then - int (digitsValue (takeWhile isDigit r'))
                 else if sg = CHR ''+'' then int (digitsValue (takeWhile isDigit r'))
                 else int (digitsValue (takeWhile isDigit r)))
          else 0)"

definition scale10 :: "nat \<Rightarrow> int \<Rightarrow> rat" where
  "scale10 m e = (if 0 \<le> e then of_nat m * 10 ^ nat e else of_nat m / 10 ^ nat (- e))"

text \<open>
  The longest prefix that is a \<open>StrUnsignedDecimalLiteral\<close>: \<open>Infinity\<close>, digits with an
  optional fraction, or a fraction alone, each with an optional exponent.
\<close>

definition strUnsignedDecimalLiteral :: "string \<Rightarrow> number" where
  "strUnsignedDecimalLiteral s =
     (if startsWith s ''Infinity'' then Infinity True
      else
        let ip = takeWhile isDigit s; r1 = dropWhile isDigit s
        in (case r1 of
              [] \<Rightarrow> if ip = [] then NaN else Num (of_nat (digitsValue ip))
            | c # r \<Rightarrow>
                if c = CHR ''.'' then
                  (let fp = takeWhile isDigit r; r2 = dropWhile isDigit r
                   in if ip = [] \<and> fp = [] then NaN
                      else Num (scale10 (digitsValue (ip @ fp))
                                  (exponentPart r2 - int (length fp))))
                else if ip = [] then NaN
                else Num (scale10 (digitsValue ip) (exponentPart r1))))"

definition negate :: "number \<Rightarrow> number" where
  "negate x = (case x of NaN \<Rightarrow> NaN | Num q \<Rightarrow> Num (- q) | Infinity b \<Rightarrow> Infinity (\<not> b))"

definition parseFloat :: "string \<Rightarrow> number" where
  "parseFloat s =
     (case trimStart s of
        [] \<Rightarrow> NaN
      | c # r \<Rightarrow>
          if c = CHR ''-'' then negate (strUnsignedDecimalLiteral r)
          else if c = CHR ''+'' then strUnsignedDecimalLiteral r
          else strUnsignedDecimalLiteral (c # r))"

definition isNaN :: "number \<Rightarrow> bool" where
  "isNaN x = (x = NaN)"

text \<open>The comparison \<open>x <= 0\<close> on the double that \<open>x\<close> stands for.\<close>

definition le_zero :: "number \<Rightarrow> bool" where
  "le_zero x =
     (case x of NaN \<Rightarrow> False | Num q \<Rightarrow> q \<le> 1 / 2 ^ 1075 | Infinity b \<Rightarrow> \<not> b)"

section \<open>\<open>client/src/lib/web3.ts\<close>: one transfer through the wallet\<close>

text \<open>
  A thrown value: the \<open>code\<close> and \<open>message\<close> properties that the catch blocks read.
  \<open>Error m\<close> is \<open>new Error(m)\<close>.
\<close>

record js_error =
  code :: "int option"
  message :: "string option"

definition Error :: "string \<Rightarrow> js_error" where
  "Error m = \<lparr>code = None, message = Some m\<rparr>"

record tx_params =
  tx_from :: string
  tx_to :: string
  tx_value :: nat
  tx_data :: "string option"
  tx_gas :: "nat option"

text \<open>
  What leaves the browser, in order. \<open>SendTransaction\<close> and \<open>Transfer\<close> are the two
  requests that ask the wallet to sign and broadcast; \<open>Submit i\<close> marks the loop of the
  multisender calling the submitter for recipient \<open>i\<close>; \<open>Delay ms\<close> is a
  \<open>setTimeout\<close> that the loop awaits.
\<close>

datatype event =
    Submit nat
  | EstimateGas tx_params
  | SendTransaction tx_params
  | BalanceOf string string
  | Transfer string string nat string
  | Delay nat

text \<open>
  The web3 library and the wallet behind it, as one call sees them: what each request
  answers (\<open>Inl\<close> is a rejected promise or a thrown error). Two computations of the
  library and of double arithmetic are taken as they come:
  \<^item> \<open>toBN_lt balance amountInWei\<close> is
    \<open>web3.utils.toBN(balance).lt(web3.utils.toBN(amountInWei))\<close>. Where the library has
    \<open>utils.toBN\<close> it answers whether the first number is below the second; a version of
    the library without \<open>utils.toBN\<close> throws a \<open>TypeError\<close> here, whatever the numbers.
  \<^item> \<open>gas_limit gasEstimate\<close> is \<open>Math.floor(Number(gasEstimate) * 1.3)\<close>, computed on
    doubles.
\<close>

record web3_env =
  has_ethereum :: bool
  getAccounts :: "js_error + string list"
  isAddress :: "string \<Rightarrow> bool"
  toWei :: "string \<Rightarrow> js_error + nat"
  estimateGas :: "tx_params \<Rightarrow> js_error + nat"
  eth_sendTransaction :: "tx_params \<Rightarrow> js_error + string"
  balanceOf :: "string \<Rightarrow> string \<Rightarrow> js_error + nat"
  toBN_lt :: "nat \<Rightarrow> nat \<Rightarrow> js_error + bool"
  transfer_send :: "string \<Rightarrow> string \<Rightarrow> nat \<Rightarrow> string \<Rightarrow> js_error + string"
  gas_limit :: "nat \<Rightarrow> nat"

text \<open>\<open>error.message || 'Unknown error'\<close>: a missing or empty message is falsy.\<close>

definition message_or_unknown :: "js_error \<Rightarrow> string" where
  "message_or_unknown error =
     (case message error of
        None \<Rightarrow> ''Unknown error''
      | Some m \<Rightarrow> if m = [] then ''Unknown error'' else m)"

text \<open>\<open>error.message?.includes(p)\<close>\<close>

definition message_includes :: "js_error \<Rightarrow> string \<Rightarrow> bool" where
  "message_includes error p =
     (case message error of None \<Rightarrow> False | Some m \<Rightarrow> string_includes m p)"

text \<open>The body of the \<open>try\<close> block of \<open>sendTransaction\<close>.\<close>

definition sendTransaction_try ::
  "web3_env \<Rightarrow> string \<Rightarrow> string \<Rightarrow> string \<Rightarrow> string option \<Rightarrow> (js_error + string) \<times> event list"
where
  "sendTransaction_try W account0 to val data =
     (case toWei W val of
        Inl e \<Rightarrow> (Inl e, [])
      | Inr wei \<Rightarrow>
          let txParams = \<lparr>tx_from = account0, tx_to = to, tx_value = wei,
                           tx_data = (if data = Some [] then None else data), tx_gas = None\<rparr>
          in (case estimateGas W txParams of
                Inl e \<Rightarrow> (Inl e, [EstimateGas txParams])
              | Inr gasEstimate \<Rightarrow>
                  let txParams' = txParams\<lparr>tx_gas := Some (gas_limit W gasEstimate)\<rparr>
                  in (case eth_sendTransaction W txParams' of
                        Inl e \<Rightarrow> (Inl e, [EstimateGas txParams, SendTransaction txParams'])
                      | Inr transactionHash \<Rightarrow>
                          (Inr transactionHash,
                           [EstimateGas txParams, SendTransaction txParams']))))"

definition sendTransaction_catch :: "js_error \<Rightarrow> js_error" where
  "sendTransaction_catch error =
     (if code error = Some 4001 then Error ''Transaction was rejected by user''
      else if code error = Some (- 32603)
        then Error ''Transaction failed - insufficient funds or gas''
      else if message_includes error ''insufficient funds''
        then Error ''Insufficient funds for transaction''
      else Error (''Transaction failed: '' @ message_or_unknown error))"

definition sendTransaction ::
  "web3_env \<Rightarrow> string \<Rightarrow> string \<Rightarrow> string option \<Rightarrow> (js_error + string) \<times> event list"
where
  "sendTransaction W to val data =
     (if \<not> has_ethereum W then (Inl (Error ''MetaMask not available''), [])
      else
        (case getAccounts W of
           Inl e \<Rightarrow> (Inl e, [])
         | Inr accounts \<Rightarrow>
             (case accounts of
                [] \<Rightarrow> (Inl (Error ''No wallet connected''), [])
              | account0 # _ \<Rightarrow>
                  if \<not> isAddress W to
                    then (Inl (Error (''Invalid recipient address: '' @ to)), [])
                  else if isNaN (parseFloat val) \<or> le_zero (parseFloat val)
                    then (Inl (Error (''Invalid amount: '' @ val)), [])
                  else
                    (case sendTransaction_try W account0 to val data of
                       (Inl error, evs) \<Rightarrow> (Inl (sendTransaction_catch error), evs)
                     | (Inr transactionHash, evs) \<Rightarrow> (Inr transactionHash, evs)))))"

text \<open>The body of the \<open>try\<close> block of \<open>sendERC20Token\<close>: the balance query, the
  comparison \<open>toBN(balance).lt(toBN(amountInWei))\<close>, which may throw like every other
  call of the block, and the transfer.\<close>

definition sendERC20Token_try ::
  "web3_env \<Rightarrow> string \<Rightarrow> string \<Rightarrow> string \<Rightarrow> string \<Rightarrow> (js_error + string) \<times> event list"
where
  "sendERC20Token_try W account0 tokenAddr to amt =
     (case toWei W amt of
        Inl e \<Rightarrow> (Inl e, [])
      | Inr amountInWei \<Rightarrow>
          (case balanceOf W tokenAddr account0 of
             Inl e \<Rightarrow> (Inl e, [BalanceOf tokenAddr account0])
           | Inr balance \<Rightarrow>
               (case toBN_lt W balance amountInWei of
                  Inl e \<Rightarrow> (Inl e, [BalanceOf tokenAddr account0])
                | Inr below \<Rightarrow>
                    if below
                      then (Inl (Error ''Insufficient token balance''),
                            [BalanceOf tokenAddr account0])
                    else
                      (case transfer_send W tokenAddr to amountInWei account0 of
                         Inl e \<Rightarrow>
                           (Inl e, [BalanceOf tokenAddr account0,
                                    Transfer tokenAddr to amountInWei account0])
                       | Inr transactionHash \<Rightarrow>
                           (Inr transactionHash,
                            [BalanceOf tokenAddr account0,
                             Transfer tokenAddr to amountInWei account0])))))"

definition sendERC20Token_catch :: "js_error \<Rightarrow> js_error" where
  "sendERC20Token_catch error =
     (if code error = Some 4001 then Error ''Transaction was rejected by user''
      else if message_includes error ''insufficient''
        then Error ''Insufficient token balance or gas''
      else if message_includes error ''transfer amount exceeds balance''
        then Error ''Insufficient token balance''
      else Error (''Token transfer failed: '' @ message_or_unknown error))"

text \<open>
  The token address reaches \<open>sendERC20Token\<close> from an untyped object and may be
  \<open>null\<close> (\<open>None\<close>), which \<open>isAddress\<close> refuses.
\<close>

definition sendERC20Token ::
  "web3_env \<Rightarrow> string option \<Rightarrow> string \<Rightarrow> string \<Rightarrow> (js_error + string) \<times> event list"
where
  "sendERC20Token W tokenAddr to amt =
     (if \<not> has_ethereum W then (Inl (Error ''MetaMask not available''), [])
      else
        (case getAccounts W of
           Inl e \<Rightarrow> (Inl e, [])
         | Inr accounts \<Rightarrow>
             (case accounts of
                [] \<Rightarrow> (Inl (Error ''No wallet connected''), [])
              | account0 # _ \<Rightarrow>
                  (case tokenAddr of
                     None \<Rightarrow> (Inl (Error ''Invalid token address: null''), [])
                   | Some ta \<Rightarrow>
                       if \<not> isAddress W ta
                         then (Inl (Error (''Invalid token address: '' @ ta)), [])
                       else if \<not> isAddress W to
                         then (Inl (Error (''Invalid recipient address: '' @ to)), [])
                       else if isNaN (parseFloat amt) \<or> le_zero (parseFloat amt)
                         then (Inl (Error (''Invalid amount: '' @ amt)), [])
                       else
                         (case sendERC20Token_try W account0 ta to amt of
                            (Inl error, evs) \<Rightarrow> (Inl (sendERC20Token_catch error), evs)
                          | (Inr transactionHash, evs) \<Rightarrow> (Inr transactionHash, evs))))))"

section \<open>\<open>server/storage.ts\<close> and the multisend routes: the record store\<close>

record recipient =
  address :: string
  amount :: string

datatype token_type = Native | Erc20

text \<open>The four status strings \<open>pending\<close>, \<open>confirmed\<close>, \<open>failed\<close> and
  \<open>partially_failed\<close>.\<close>

datatype status = Pending | Confirmed | Failed | PartiallyFailed

text \<open>
  \<open>multisendData\<close>, the object that \<open>handleSendToMultiple\<close> builds and the mutation
  receives. Its \<open>totalAmount\<close> (a floating-point sum turned into text) and
  \<open>tokenSymbol\<close> are stored as they come and read by nothing below; they are left out.
\<close>

record multisend_data =
  data_recipients :: "recipient list"
  data_tokenType :: token_type
  data_tokenAddress :: "string option"
  senderAddress :: string

text \<open>
  A stored \<open>MultisendTransaction\<close>: the inserted object spread, then the fields that
  \<open>createMultisendTransaction\<close> and the updates set. A column that no request has
  written yet is \<open>None\<close>. The fields carry the column names of the table
  (\<open>transaction_hashes\<close> for \<open>transactionHashes\<close>, and so on, \<open>rid\<close> for \<open>id\<close>),
  since \<open>transactionHashes\<close> also names the array that the loop of the client fills.
\<close>

record multisend_transaction = multisend_data +
  rid :: string
  status :: status
  transaction_hashes :: "string list option"
  failed_addresses :: "string list option"
  gas_used :: "string option"

text \<open>The body of a \<open>PUT /api/multisend/:id\<close> request.\<close>

record update_body =
  upd_status :: status
  upd_transactionHashes :: "string list"
  upd_failedAddresses :: "string list"
  upd_gasUsed :: "string option"

type_synonym record_store = "string \<rightharpoonup> multisend_transaction"

text \<open>
  \<open>MemStorage.createMultisendTransaction\<close> behind \<open>POST /api/multisend\<close>, whose body is
  \<open>{...multisendData, status: "pending", transactionHashes: []}\<close>; \<open>newId\<close> is the
  result of \<open>randomUUID()\<close>.
\<close>

definition createMultisendTransaction ::
  "string \<Rightarrow> multisend_data \<Rightarrow> record_store \<Rightarrow> multisend_transaction \<times> record_store"
where
  "createMultisendTransaction newId d st =
     (let t = \<lparr>data_recipients = data_recipients d, data_tokenType = data_tokenType d,
                data_tokenAddress = data_tokenAddress d, senderAddress = senderAddress d,
                rid = newId, status = Pending, transaction_hashes = Some [],
                failed_addresses = None, gas_used = None\<rparr>
      in (t, st(newId \<mapsto> t)))"

text \<open>\<open>MemStorage.updateMultisendTransaction\<close>: \<open>{ ...transaction, ...updates }\<close>.\<close>

definition updateMultisendTransaction ::
  "string \<Rightarrow> update_body \<Rightarrow> record_store \<Rightarrow> multisend_transaction option \<times> record_store"
where
  "updateMultisendTransaction i u st =
     (case st i of
        None \<Rightarrow> (None, st)
      | Some t \<Rightarrow>
          let t' = t\<lparr>status := upd_status u,
                     transaction_hashes := Some (upd_transactionHashes u),
                     failed_addresses := Some (upd_failedAddresses u),
                     gas_used := (case upd_gasUsed u of None \<Rightarrow> gas_used t | Some g \<Rightarrow> Some g)\<rparr>
          in (Some t', st(i \<mapsto> t')))"

section \<open>\<open>client/src/components/multisender.tsx\<close>\<close>

text \<open>\<open>window.ethereum\<close>, when there is one: what its two requests answer.\<close>

record provider =
  eth_accounts :: "js_error + string list"
  eth_chainId :: "js_error + string"

text \<open>
  Everything outside the component that a run reads: the injected wallet, the answer to
  the \<open>confirm\<close> dialog, what the \<open>i\<close>-th submission of the loop sees of web3 and the
  wallet, whether the \<open>n\<close>-th \<open>apiRequest\<close> of the mutation throws (0 is the \<open>POST\<close>,
  1 the final \<open>PUT\<close>, 2 the \<open>PUT\<close> of the catch block), and the identifier that the
  server draws.
\<close>

record env =
  window_ethereum :: "provider option"
  confirm :: bool
  web3_at :: "nat \<Rightarrow> web3_env"
  api_fault :: "nat \<Rightarrow> js_error option"
  randomUUID :: string

record world =
  store :: record_store
  trace :: "event list"

text \<open>
  Modelled from the spec: \<open>apiRequest\<close> of \<open>client/src/lib/queryClient.ts\<close> is not part
  of the sources. The spec has the orchestrator reach the record store through create and
  update operations whose failures are surfaced to the caller: a request either throws
  (\<open>api_fault\<close>, and then the store is as it was) or runs the route of the server; an
  update of an unknown identifier is the route's 404 and throws too.
\<close>

definition apiRequest_POST ::
  "env \<Rightarrow> nat \<Rightarrow> multisend_data \<Rightarrow> record_store \<Rightarrow> js_error + multisend_transaction \<times> record_store"
where
  "apiRequest_POST E n d st =
     (case api_fault E n of
        Some e \<Rightarrow> Inl e
      | None \<Rightarrow> Inr (createMultisendTransaction (randomUUID E) d st))"

definition apiRequest_PUT ::
  "env \<Rightarrow> nat \<Rightarrow> string \<Rightarrow> update_body \<Rightarrow> record_store \<Rightarrow> js_error + record_store"
where
  "apiRequest_PUT E n i u st =
     (case api_fault E n of
        Some e \<Rightarrow> Inl e
      | None \<Rightarrow>
          (case updateMultisendTransaction i u st of
             (None, _) \<Rightarrow> Inl (Error ''404: Transaction not found'')
           | (Some _, st') \<Rightarrow> Inr st'))"

subsection \<open>The submission loop of \<open>sendMutation\<close>\<close>

text \<open>The two arrays that the loop fills, and the events so far.\<close>

record loop_state =
  transactionHashes :: "string list"
  failedTransactions :: "string list"
  events :: "event list"

text \<open>Both arrays are empty when the loop starts.\<close>

definition loop_start :: "event list \<Rightarrow> loop_state" where
  "loop_start evs = \<lparr>transactionHashes = [], failedTransactions = [], events = evs\<rparr>"

text \<open>The call inside the inner \<open>try\<close>: native or token transfer to recipient \<open>i\<close>.\<close>

definition submit :: "env \<Rightarrow> multisend_data \<Rightarrow> nat \<Rightarrow> (js_error + string) \<times> event list" where
  "submit E d i =
     (let recipient = data_recipients d ! i
      in if data_tokenType d = Native
         then sendTransaction (web3_at E i) (address recipient) (amount recipient) None
         else sendERC20Token (web3_at E i) (data_tokenAddress d)
                (address recipient) (amount recipient))"

text \<open>
  One iteration, for \<open>i < recipients.length\<close>: on success the hash is pushed and, unless
  this was the last recipient, the loop sleeps 2000 ms; on a thrown error the address is
  pushed and the loop continues at once.
\<close>

definition loop_body :: "env \<Rightarrow> multisend_data \<Rightarrow> nat \<Rightarrow> loop_state \<Rightarrow> loop_state" where
  "loop_body E d i s =
     (case submit E d i of
        (Inr transactionHash, evs) \<Rightarrow>
          s\<lparr>transactionHashes := transactionHashes s @ [transactionHash],
            events := events s @ [Submit i] @ evs @
                      (if i < length (data_recipients d) - 1 then [Delay 2000] else [])\<rparr>
      | (Inl error, evs) \<Rightarrow>
          s\<lparr>failedTransactions := failedTransactions s @ [address (data_recipients d ! i)],
            events := events s @ [Submit i] @ evs\<rparr>)"

function send_loop :: "env \<Rightarrow> multisend_data \<Rightarrow> nat \<Rightarrow> loop_state \<Rightarrow> loop_state" where
  "send_loop E d i s =
     (if i < length (data_recipients d) then send_loop E d (Suc i) (loop_body E d i s) else s)"
  by pat_completeness auto
termination
  by (relation "measure (\<lambda>(E, d, i, s). length (data_recipients d) - i)") auto

declare send_loop.simps [simp del]

text \<open>The state after the first \<open>k\<close> iterations: the intermediate points of the loop.\<close>

primrec loop_upto :: "env \<Rightarrow> multisend_data \<Rightarrow> loop_state \<Rightarrow> nat \<Rightarrow> loop_state" where
  "loop_upto E d s 0 = s"
| "loop_upto E d s (Suc k) = loop_body E d k (loop_upto E d s k)"

definition finalStatus :: "string list \<Rightarrow> recipient list \<Rightarrow> status" where
  "finalStatus failed rs =
     (if length failed = 0 then Confirmed
      else if length failed = length rs then Failed
      else PartiallyFailed)"

text \<open>What the mutation resolves to: the created record with status and hashes
  overwritten, and the \<open>failedTransactions\<close> array beside it.\<close>

record batch_outcome =
  outcome_record :: multisend_transaction
  outcome_failedTransactions :: "string list"

text \<open>The outer \<open>try\<close> and its \<open>catch\<close>, entered once the record exists. The inner
  \<open>try\<close> catches whatever a submission throws, so the only statement of the outer
  \<open>try\<close> that can throw is the final \<open>PUT\<close>.\<close>

definition run_batch ::
  "env \<Rightarrow> multisend_data \<Rightarrow> multisend_transaction \<Rightarrow> world \<Rightarrow> (js_error + batch_outcome) \<times> world"
where
  "run_batch E d multisendRecord w =
     (let s = send_loop E d 0 (loop_start (trace w));
          w1 = w\<lparr>trace := events s\<rparr>;
          fs = finalStatus (failedTransactions s) (data_recipients d)
      in (case apiRequest_PUT E 1 (rid multisendRecord)
                 \<lparr>upd_status = fs, upd_transactionHashes = transactionHashes s,
                  upd_failedAddresses = failedTransactions s, upd_gasUsed = Some ''0''\<rparr>
                 (store w1) of
            Inr st2 \<Rightarrow>
              (Inr \<lparr>outcome_record =
                      multisendRecord\<lparr>status := fs,
                                      transaction_hashes := Some (transactionHashes s)\<rparr>,
                    outcome_failedTransactions = failedTransactions s\<rparr>,
               w1\<lparr>store := st2\<rparr>)
          | Inl error \<Rightarrow>
              (case apiRequest_PUT E 2 (rid multisendRecord)
                      \<lparr>upd_status = Failed, upd_transactionHashes = transactionHashes s,
                       upd_failedAddresses = map address (data_recipients d),
                       upd_gasUsed = None\<rparr>
                      (store w1) of
                 Inr st3 \<Rightarrow> (Inl error, w1\<lparr>store := st3\<rparr>)
               | Inl error2 \<Rightarrow> (Inl error2, w1))))"

definition mutationFn ::
  "env \<Rightarrow> multisend_data \<Rightarrow> world \<Rightarrow> (js_error + batch_outcome) \<times> world"
where
  "mutationFn E d w =
     (case window_ethereum E of
        None \<Rightarrow> (Inl (Error ''MetaMask not available''), w)
      | Some ethereum \<Rightarrow>
          (case eth_accounts ethereum of
             Inl e \<Rightarrow> (Inl e, w)
           | Inr accounts \<Rightarrow>
               if length accounts = 0 then (Inl (Error ''Wallet not connected''), w)
               else
                 (case eth_chainId ethereum of
                    Inl e \<Rightarrow> (Inl e, w)
                  | Inr chainId \<Rightarrow>
                      if chainId \<noteq> ''0x279f''
                        then (Inl (Error ''Please switch to Monad Testnet''), w)
                      else
                        (case apiRequest_POST E 0 d (store w) of
                           Inl e \<Rightarrow> (Inl e, w)
                         | Inr (multisendRecord, st1) \<Rightarrow>
                             run_batch E d multisendRecord (w\<lparr>store := st1\<rparr>)))))"

subsection \<open>The recipient list\<close>

text \<open>The state of the component that the handlers read.\<close>

record multisender =
  recipients :: "recipient list"
  newAddress :: string
  newAmount :: string
  tokenType :: token_type
  tokenAddress :: string

text \<open>A handler that stops with a destructive toast returns its title (\<open>Inl\<close>).\<close>

definition addRecipient :: "multisender \<Rightarrow> string + multisender" where
  "addRecipient c =
     (if newAddress c = [] \<or> newAmount c = [] then Inl ''Missing Information''
      else if \<not> startsWith (newAddress c) ''0x'' \<or> length (newAddress c) \<noteq> 42
        then Inl ''Invalid Address''
      else if isNaN (parseFloat (newAmount c)) \<or> le_zero (parseFloat (newAmount c))
        then Inl ''Invalid Amount''
      else if list_ex (\<lambda>r. toLowerCase (address r) = toLowerCase (newAddress c)) (recipients c)
        then Inl ''Duplicate Address''
      else Inr (c\<lparr>recipients := recipients c @ [\<lparr>address = newAddress c, amount = newAmount c\<rparr>],
                 newAddress := [], newAmount := []\<rparr>))"

text \<open>One line of the uploaded text: the first two comma-separated fields, trimmed;
  a line with no comma has no amount.\<close>

definition csv_line :: "string \<Rightarrow> recipient option" where
  "csv_line line =
     (case map trim (split CHR '','' line) of
        addr # amt # _ \<Rightarrow>
          if addr \<noteq> [] \<and> amt \<noteq> [] \<and>
             startsWith addr ''0x'' \<and> length addr = 42 \<and> \<not> isNaN (parseFloat amt)
          then Some \<lparr>address = addr, amount = amt\<rparr> else None
      | _ \<Rightarrow> None)"

text \<open>The loop of \<open>reader.onload\<close> over the lines that are not blank.\<close>

definition csv_recipients :: "string \<Rightarrow> recipient list" where
  "csv_recipients text =
     List.map_filter csv_line (filter (\<lambda>line. trim line \<noteq> []) (split (CHR 0x0A) text))"

definition handleCSVUpload :: "multisender \<Rightarrow> string \<Rightarrow> string + multisender" where
  "handleCSVUpload c text =
     (let newRecipients = csv_recipients text
      in if length newRecipients > 0
         then Inr (c\<lparr>recipients := recipients c @ newRecipients\<rparr>)
         else Inl ''Invalid CSV'')"

subsection \<open>Starting a batch\<close>

text \<open>\<open>handleSendToMultiple\<close> up to the call of \<open>sendMutation.mutate\<close>: a destructive
  toast, nothing at all when the dialog is declined (\<open>Inr None\<close>), or the data handed
  to the mutation.\<close>

definition handleSendToMultiple :: "env \<Rightarrow> multisender \<Rightarrow> string + multisend_data option" where
  "handleSendToMultiple E c =
     (if length (recipients c) = 0 then Inl ''No Recipients''
      else if tokenType c = Erc20 \<and> tokenAddress c = [] then Inl ''Token Not Selected''
      else
        (case window_ethereum E of
           None \<Rightarrow> Inl ''Wallet Not Found''
         | Some ethereum \<Rightarrow>
             (case eth_accounts ethereum of
                Inl e \<Rightarrow> Inl ''Wallet Error''
              | Inr accounts \<Rightarrow>
                  (case accounts of
                     [] \<Rightarrow> Inl ''Wallet Not Connected''
                   | account0 # _ \<Rightarrow>
                       if \<not> confirm E then Inr None
                       else Inr (Some \<lparr>data_recipients = recipients c,
                                       data_tokenType = tokenType c,
                                       data_tokenAddress =
                                         (if tokenType c = Erc20 then Some (tokenAddress c)
                                          else None),
                                       senderAddress = account0\<rparr>)))))"

text \<open>A click on the send button, to the end of the mutation it may start.\<close>

datatype click_result =
    Toast string
  | Declined
  | Rejected js_error
  | Resolved batch_outcome

definition click_send :: "env \<Rightarrow> multisender \<Rightarrow> world \<Rightarrow> click_result \<times> world" where
  "click_send E c w =
     (case handleSendToMultiple E c of
        Inl title \<Rightarrow> (Toast title, w)
      | Inr None \<Rightarrow> (Declined, w)
      | Inr (Some multisendData) \<Rightarrow>
          (case mutationFn E multisendData w of
             (Inl error, w') \<Rightarrow> (Rejected error, w')
           | (Inr data, w') \<Rightarrow> (Resolved data, w')))"

section \<open>The statements of the specification, and inputs to run the code on\<close>

text \<open>
  The start preconditions in the words of the specification: the recipient list is not
  empty, a token transfer names its token, a wallet provider is present, it has an
  authorized account, and it is connected to the expected chain.
\<close>

definition wallet_precondition_violated :: "env \<Rightarrow> bool" where
  "wallet_precondition_violated E =
     (case window_ethereum E of
        None \<Rightarrow> True
      | Some ethereum \<Rightarrow>
          (case eth_accounts ethereum of Inr (a # _) \<Rightarrow> False | _ \<Rightarrow> True) \<or>
          eth_chainId ethereum \<noteq> Inr ''0x279f'')"

definition start_precondition_violated :: "env \<Rightarrow> multisender \<Rightarrow> bool" where
  "start_precondition_violated E c =
     (recipients c = [] \<or> (tokenType c = Erc20 \<and> tokenAddress c = []) \<or>
      wallet_precondition_violated E)"

text \<open>The number of outcomes that a record holds: its transaction hashes and its failed
  addresses, a column never written counting as empty.\<close>

definition outcomes_recorded :: "multisend_transaction \<Rightarrow> nat" where
  "outcomes_recorded t =
     (case transaction_hashes t of None \<Rightarrow> 0 | Some hs \<Rightarrow> length hs) +
     (case failed_addresses t of None \<Rightarrow> 0 | Some fs \<Rightarrow> length fs)"

text \<open>The events of the loop itself, without those of the submitter.\<close>

fun loop_event :: "event \<Rightarrow> bool" where
  "loop_event (Submit i) = True"
| "loop_event (Delay ms) = True"
| "loop_event _ = False"

text \<open>
  The delay policy in the words of the specification, read off a trace: a submission
  that follows another has a delay of 2000 ms before it, and no delay follows the last
  submission. The first argument tells where the trace stands: before the first
  submission, after a submission, or after the delay that followed one.
\<close>

datatype pacing = NoSubmission | Submitted | Waited

fun waits_between_submissions :: "pacing \<Rightarrow> event list \<Rightarrow> bool" where
  "waits_between_submissions p [] = (p \<noteq> Waited)"
| "waits_between_submissions p (Submit i # evs) =
     (p \<noteq> Submitted \<and> waits_between_submissions Submitted evs)"
| "waits_between_submissions p (Delay ms # evs) =
     (p = Submitted \<and> ms = 2000 \<and> waits_between_submissions Waited evs)"
| "waits_between_submissions p (ev # evs) = waits_between_submissions p evs"

text \<open>
  The address format in the words of the specification: 42 characters, \<open>0x\<close> and then
  hexadecimal digits.
\<close>

definition isHexDigit :: "char \<Rightarrow> bool" where
  "isHexDigit c =
     (let n = (of_char c :: nat)
      in (48 \<le> n \<and> n \<le> 57) \<or> (65 \<le> n \<and> n \<le> 70) \<or> (97 \<le> n \<and> n \<le> 102))"

definition hex_address :: "string \<Rightarrow> bool" where
  "hex_address a = (length a = 42 \<and> take 2 a = ''0x'' \<and> list_all isHexDigit (drop 2 a))"

text \<open>A wallet on the expected chain with one account, whose user accepts or declines
  each request to sign, and three recipients.\<close>

definition example_sender :: string where
  "example_sender = ''0x00000000000000000000000000000000000000aa''"

definition user_denied :: js_error where
  "user_denied = \<lparr>code = Some 4001, message = Some ''User denied transaction''\<rparr>"

definition example_web3 :: "bool \<Rightarrow> web3_env" where
  "example_web3 accepted =
     \<lparr>has_ethereum = True,
      getAccounts = Inr [example_sender],
      isAddress = hex_address,
      toWei = (\<lambda>a. Inr 1000),
      estimateGas = (\<lambda>p. Inr 21000),
      eth_sendTransaction = (\<lambda>p. if accepted then Inr ''0xhash'' else Inl user_denied),
      balanceOf = (\<lambda>t a. Inr 400),
      toBN_lt = (\<lambda>b n. Inr (b < n)),
      transfer_send = (\<lambda>t a n f. if accepted then Inr ''0xhash'' else Inl user_denied),
      gas_limit = (\<lambda>g. (g * 13) div 10)\<rparr>"

definition example_wallet :: provider where
  "example_wallet = \<lparr>eth_accounts = Inr [example_sender], eth_chainId = Inr ''0x279f''\<rparr>"

definition example_env :: "(nat \<Rightarrow> bool) \<Rightarrow> (nat \<Rightarrow> js_error option) \<Rightarrow> env" where
  "example_env accepted faults =
     \<lparr>window_ethereum = Some example_wallet, confirm = True,
      web3_at = (\<lambda>i. example_web3 (accepted i)), api_fault = faults,
      randomUUID = ''record-1''\<rparr>"

definition alice :: recipient where
  "alice = \<lparr>address = ''0x1111111111111111111111111111111111111111'', amount = ''1.5''\<rparr>"

definition bob :: recipient where
  "bob = \<lparr>address = ''0x2222222222222222222222222222222222222222'', amount = ''2''\<rparr>"

definition carol :: recipient where
  "carol = \<lparr>address = ''0x3333333333333333333333333333333333333333'', amount = ''0.25''\<rparr>"

definition example_data :: "recipient list \<Rightarrow> multisend_data" where
  "example_data rs =
     \<lparr>data_recipients = rs, data_tokenType = Native, data_tokenAddress = None,
      senderAddress = example_sender\<rparr>"

definition empty_world :: world where
  "empty_world = \<lparr>store = Map.empty, trace = []\<rparr>"

text \<open>The second of three submissions is declined; every request to the server is served.\<close>

definition second_declined :: env where
  "second_declined = example_env (\<lambda>i. i \<noteq> 1) (\<lambda>n. None)"

text \<open>Every submission is accepted, and the final \<open>PUT\<close> throws; in the second
  environment the \<open>PUT\<close> of the catch block throws as well.\<close>

definition final_update_fails :: env where
  "final_update_fails =
     example_env (\<lambda>i. True) (\<lambda>n. if n = 1 then Some (Error ''Failed to fetch'') else None)"

definition both_updates_fail :: env where
  "both_updates_fail =
     example_env (\<lambda>i. True)
       (\<lambda>n. if n = 1 then Some (Error ''Failed to fetch'')
            else if n = 2 then Some (Error ''Service unavailable'') else None)"

text \<open>The first of the submissions is declined.\<close>

definition first_declined :: env where
  "first_declined = example_env (\<lambda>i. i \<noteq> 0) (\<lambda>n. None)"

text \<open>A wallet on another chain.\<close>

definition wrong_chain :: env where
  "wrong_chain =
     (example_env (\<lambda>i. True) (\<lambda>n. None))
       \<lparr>window_ethereum := Some \<lparr>eth_accounts = Inr [example_sender], eth_chainId = Inr ''0x1''\<rparr>\<rparr>"

text \<open>The component with its two entry fields filled in.\<close>

definition entry_form :: "recipient list \<Rightarrow> string \<Rightarrow> string \<Rightarrow> multisender" where
  "entry_form rs a n =
     \<lparr>recipients = rs, newAddress = a, newAmount = n, tokenType = Native, tokenAddress = []\<rparr>"

text \<open>The three lines of the bulk import example: a valid row, a malformed address,
  and a row with the amount \<open>-3\<close>.\<close>

definition csv_example :: string where
  "csv_example =
     ''0x1111111111111111111111111111111111111111,1.5'' @ [CHR 0x0A] @
     ''notanaddress,2'' @ [CHR 0x0A] @
     ''0x2222222222222222222222222222222222222222,-3''"

text \<open>A recipient whose address has letters, and the same address in capitals.\<close>

definition dave_in_capitals :: string where
  "dave_in_capitals = ''0xABCDEFABCDEFABCDEFABCDEFABCDEFABCDEFABCD''"

definition dave :: recipient where
  "dave = \<lparr>address = ''0xabcdefabcdefabcdefabcdefabcdefabcdefabcd'', amount = ''1''\<rparr>"

text \<open>A token contract, and a wallet that holds more of the token than is sent.\<close>

definition example_token :: string where
  "example_token = ''0x4444444444444444444444444444444444444444''"

definition funded_web3 :: web3_env where
  "funded_web3 = (example_web3 True)\<lparr>balanceOf := (\<lambda>t a. Inr 5000)\<rparr>"

text \<open>A library without \<open>utils.toBN\<close>: the comparison throws.\<close>

definition toBN_missing :: js_error where
  "toBN_missing = \<lparr>code = None, message = Some ''web3.utils.toBN is not a function''\<rparr>"

definition web3_without_toBN :: web3_env where
  "web3_without_toBN = (example_web3 True)\<lparr>toBN_lt := (\<lambda>b n. Inl toBN_missing)\<rparr>"

section \<open>Evaluation\<close>

lemmas parseFloat_eval = parseFloat_def trimStart_def strUnsignedDecimalLiteral_def
  exponentPart_def scale10_def digitsValue_def isDigit_def isWhiteSpace_def startsWith_def
  negate_def isNaN_def le_zero_def

lemmas example_eval = example_env_def example_data_def example_web3_def example_wallet_def
  example_sender_def empty_world_def alice_def bob_def carol_def user_denied_def
  hex_address_def isHexDigit_def

lemmas submit_eval = submit_def sendTransaction_def sendTransaction_try_def
  sendTransaction_catch_def sendERC20Token_def sendERC20Token_try_def
  sendERC20Token_catch_def message_includes_def message_or_unknown_def Error_def

lemmas mutation_eval = mutationFn_def run_batch_def loop_start_def send_loop.simps
  loop_body_def finalStatus_def apiRequest_POST_def apiRequest_PUT_def
  createMultisendTransaction_def updateMultisendTransaction_def Let_def

lemmas csv_eval = csv_recipients_def csv_line_def trim_def List.map_filter_def

lemma second_declined_run:
  "\<exists>out w'. mutationFn second_declined (example_data [alice, bob, carol]) empty_world = (Inr out, w')
     \<and> outcome_failedTransactions out = [address bob]
     \<and> transaction_hashes (outcome_record out) = Some [''0xhash'', ''0xhash'']
     \<and> status (outcome_record out) = PartiallyFailed"
  by (simp add: second_declined_def mutation_eval submit_eval example_eval parseFloat_eval)

lemma final_update_fails_two:
  "mutationFn final_update_fails (example_data [alice, bob]) empty_world =
     (Inl (Error ''Failed to fetch''),
      \<lparr>store = [''record-1'' \<mapsto>
          \<lparr>data_recipients = [alice, bob], data_tokenType = Native, data_tokenAddress = None,
           senderAddress = example_sender, rid = ''record-1'', status = Failed,
           transaction_hashes = Some [''0xhash'', ''0xhash''],
           failed_addresses = Some [address alice, address bob], gas_used = None\<rparr>],
       trace = events (send_loop final_update_fails (example_data [alice, bob]) 0 (loop_start []))\<rparr>)"
  by (simp add: final_update_fails_def mutation_eval submit_eval example_eval parseFloat_eval)

section \<open>The submission loop\<close>

lemma loop_body_count:
  "length (transactionHashes (loop_body E d i s)) + length (failedTransactions (loop_body E d i s))
     = Suc (length (transactionHashes s) + length (failedTransactions s))"
  by (simp add: loop_body_def split: prod.splits sum.splits)

lemma loop_upto_count:
  "length (transactionHashes (loop_upto E d s k)) + length (failedTransactions (loop_upto E d s k))
     = length (transactionHashes s) + length (failedTransactions s) + k"
  by (induction k) (simp_all add: loop_body_count)

lemma loop_upto_hashes:
  "transactionHashes (loop_upto E d s k) =
     transactionHashes s @
     map (\<lambda>i. projr (fst (submit E d i))) (filter (\<lambda>i. \<not> isl (fst (submit E d i))) [0..<k])"
  by (induction k) (auto simp: loop_body_def split: prod.splits sum.splits)

lemma loop_upto_failed:
  "failedTransactions (loop_upto E d s k) =
     failedTransactions s @
     map (\<lambda>i. address (data_recipients d ! i)) (filter (\<lambda>i. isl (fst (submit E d i))) [0..<k])"
  by (induction k) (auto simp: loop_body_def split: prod.splits sum.splits)

text \<open>The loop started at \<open>i\<close> on the state after \<open>i\<close> iterations runs the remaining
  ones: induction on the number of recipients left.\<close>

lemma send_loop_upto:
  "i \<le> length (data_recipients d) \<Longrightarrow>
     send_loop E d i (loop_upto E d s i) = loop_upto E d s (length (data_recipients d))"
proof (induction "length (data_recipients d) - i" arbitrary: i)
  case 0
  then show ?case by (simp add: send_loop.simps)
next
  case (Suc n)
  then have lt: "i < length (data_recipients d)" by simp
  have "send_loop E d i (loop_upto E d s i) = send_loop E d (Suc i) (loop_upto E d s (Suc i))"
    using lt by (subst send_loop.simps) simp
  also have "\<dots> = loop_upto E d s (length (data_recipients d))"
    using Suc lt by (intro Suc.hyps) simp_all
  finally show ?case .
qed

lemma send_loop_from_start:
  "send_loop E d 0 s = loop_upto E d s (length (data_recipients d))"
  using send_loop_upto [of 0 d E s] by simp

text \<open>What a resolved mutation returns and leaves in the store.\<close>

lemma mutationFn_resolved:
  assumes "mutationFn E d w = (Inr out, w')"
  shows "\<exists>t. outcome_failedTransactions out =
              failedTransactions (send_loop E d 0 (loop_start (trace w)))
       \<and> transaction_hashes (outcome_record out) =
              Some (transactionHashes (send_loop E d 0 (loop_start (trace w))))
       \<and> status (outcome_record out) =
              finalStatus (failedTransactions (send_loop E d 0 (loop_start (trace w))))
                (data_recipients d)
       \<and> rid (outcome_record out) = randomUUID E
       \<and> trace w' = events (send_loop E d 0 (loop_start (trace w)))
       \<and> store w' (randomUUID E) = Some t
       \<and> status t = status (outcome_record out)
       \<and> transaction_hashes t = transaction_hashes (outcome_record out)
       \<and> failed_addresses t = Some (outcome_failedTransactions out)"
  using assms
  by (auto simp: mutationFn_def run_batch_def apiRequest_POST_def apiRequest_PUT_def
        createMultisendTransaction_def updateMultisendTransaction_def Let_def
      split: option.splits sum.splits if_splits prod.splits)

text \<open>
  C1, as the specification states it, fails: with two recipients whose transfers both
  succeed and a final \<open>PUT\<close> that throws, the loop is completed and the record that the
  catch block leaves behind holds two hashes and two failed addresses, four outcomes for
  two recipients.
\<close>

theorem final_record_count_counterexample:
  "length (data_recipients (example_data [alice, bob])) = 2
   \<and> map_option status
        (store (snd (mutationFn final_update_fails (example_data [alice, bob]) empty_world))
           ''record-1'') = Some Failed
   \<and> map_option outcomes_recorded
        (store (snd (mutationFn final_update_fails (example_data [alice, bob]) empty_world))
           ''record-1'') = Some 4"
proof -
  have "length (data_recipients (example_data [alice, bob])) = 2"
    by (simp add: example_data_def)
  then show ?thesis
    by (simp add: final_update_fails_two outcomes_recorded_def)
qed

text \<open>
  C1, amended. Every recipient of a batch ends in exactly one of the two arrays of the
  loop: the hashes are those of the submissions that returned, the failed addresses those
  of the submissions that threw, each in submission order. After \<open>k\<close> iterations the
  two lengths add up to \<open>k\<close>, which is at most the number \<open>N\<close> of recipients, and to
  \<open>N\<close> when the loop is over; a mutation that resolves, its final \<open>PUT\<close> served,
  returns these arrays and has written them to its record, so the final record holds
  \<open>N\<close> outcomes.
\<close>

theorem batch_outcome_count:
  "(\<forall>k \<le> length (data_recipients d).
      length (transactionHashes (loop_upto E d (loop_start evs) k)) +
      length (failedTransactions (loop_upto E d (loop_start evs) k)) = k)
   \<and> send_loop E d 0 (loop_start evs) =
       loop_upto E d (loop_start evs) (length (data_recipients d))
   \<and> transactionHashes (send_loop E d 0 (loop_start evs)) =
       map (\<lambda>i. projr (fst (submit E d i)))
         (filter (\<lambda>i. \<not> isl (fst (submit E d i))) [0..<length (data_recipients d)])
   \<and> failedTransactions (send_loop E d 0 (loop_start evs)) =
       map (\<lambda>i. address (data_recipients d ! i))
         (filter (\<lambda>i. isl (fst (submit E d i))) [0..<length (data_recipients d)])
   \<and> length (transactionHashes (send_loop E d 0 (loop_start evs))) +
     length (failedTransactions (send_loop E d 0 (loop_start evs))) =
       length (data_recipients d)
   \<and> (\<forall>w out w'. mutationFn E d w = (Inr out, w') \<longrightarrow>
        (\<exists>hs t. transaction_hashes (outcome_record out) = Some hs
           \<and> length hs + length (outcome_failedTransactions out) = length (data_recipients d)
           \<and> store w' (rid (outcome_record out)) = Some t
           \<and> transaction_hashes t = Some hs
           \<and> failed_addresses t = Some (outcome_failedTransactions out)
           \<and> outcomes_recorded t = length (data_recipients d)))"
proof (intro conjI allI impI)
  fix k
  show "length (transactionHashes (loop_upto E d (loop_start evs) k)) +
        length (failedTransactions (loop_upto E d (loop_start evs) k)) = k"
    by (simp add: loop_upto_count loop_start_def)
next
  show "send_loop E d 0 (loop_start evs) =
        loop_upto E d (loop_start evs) (length (data_recipients d))"
    by (rule send_loop_from_start)
next
  show "transactionHashes (send_loop E d 0 (loop_start evs)) =
        map (\<lambda>i. projr (fst (submit E d i)))
          (filter (\<lambda>i. \<not> isl (fst (submit E d i))) [0..<length (data_recipients d)])"
    by (simp add: send_loop_from_start loop_upto_hashes loop_start_def)
next
  show "failedTransactions (send_loop E d 0 (loop_start evs)) =
        map (\<lambda>i. address (data_recipients d ! i))
          (filter (\<lambda>i. isl (fst (submit E d i))) [0..<length (data_recipients d)])"
    by (simp add: send_loop_from_start loop_upto_failed loop_start_def)
next
  show "length (transactionHashes (send_loop E d 0 (loop_start evs))) +
        length (failedTransactions (send_loop E d 0 (loop_start evs))) =
        length (data_recipients d)"
    by (simp add: send_loop_from_start loop_upto_count loop_start_def)
next
  fix w out w'
  assume run: "mutationFn E d w = (Inr out, w')"
  from mutationFn_resolved [OF run] obtain t where
    f: "outcome_failedTransactions out =
          failedTransactions (send_loop E d 0 (loop_start (trace w)))" and
    h: "transaction_hashes (outcome_record out) =
          Some (transactionHashes (send_loop E d 0 (loop_start (trace w))))" and
    i: "rid (outcome_record out) = randomUUID E" and
    t: "store w' (randomUUID E) = Some t"
       "transaction_hashes t = transaction_hashes (outcome_record out)"
       "failed_addresses t = Some (outcome_failedTransactions out)"
    by blast
  have "length (transactionHashes (send_loop E d 0 (loop_start (trace w)))) +
        length (failedTransactions (send_loop E d 0 (loop_start (trace w)))) =
        length (data_recipients d)"
    by (simp add: send_loop_from_start loop_upto_count loop_start_def)
  with f h i t
  show "\<exists>hs t. transaction_hashes (outcome_record out) = Some hs
          \<and> length hs + length (outcome_failedTransactions out) = length (data_recipients d)
          \<and> store w' (rid (outcome_record out)) = Some t
          \<and> transaction_hashes t = Some hs
          \<and> failed_addresses t = Some (outcome_failedTransactions out)
          \<and> outcomes_recorded t = length (data_recipients d)"
    by (simp add: outcomes_recorded_def)
qed

theorem batch_outcome_count_witness:
  "(2 :: nat) \<le> length (data_recipients (example_data [alice, bob, carol]))
   \<and> length (transactionHashes
        (loop_upto second_declined (example_data [alice, bob, carol]) (loop_start []) 2)) +
     length (failedTransactions
        (loop_upto second_declined (example_data [alice, bob, carol]) (loop_start []) 2)) = 2
   \<and> (\<exists>out w' hs t.
        mutationFn second_declined (example_data [alice, bob, carol]) empty_world = (Inr out, w')
        \<and> transaction_hashes (outcome_record out) = Some hs
        \<and> length hs + length (outcome_failedTransactions out) = 3
        \<and> store w' (rid (outcome_record out)) = Some t
        \<and> transaction_hashes t = Some hs
        \<and> failed_addresses t = Some (outcome_failedTransactions out)
        \<and> outcomes_recorded t = 3)"
proof -
  let ?d = "example_data [alice, bob, carol]"
  have len: "length (data_recipients ?d) = 3"
    by (simp add: example_data_def)
  from second_declined_run obtain out w' where
    run: "mutationFn second_declined ?d empty_world = (Inr out, w')"
    by blast
  from batch_outcome_count [of ?d second_declined "[]"] len run
  show ?thesis
    by (auto simp del: loop_upto.simps)
qed

section \<open>The terminal status\<close>

text \<open>The record of a run: as it was created, or as the final update or the update of
  the catch block has left it.\<close>

lemma apiRequest_PUT_served:
  "api_fault E n = None \<Longrightarrow> st i = Some t \<Longrightarrow>
     apiRequest_PUT E n i u st =
       Inr (st(i \<mapsto> t\<lparr>status := upd_status u,
                      transaction_hashes := Some (upd_transactionHashes u),
                      failed_addresses := Some (upd_failedAddresses u),
                      gas_used := (case upd_gasUsed u of None \<Rightarrow> gas_used t | Some g \<Rightarrow> Some g)\<rparr>))"
  by (simp add: apiRequest_PUT_def updateMultisendTransaction_def Let_def)

lemma apiRequest_PUT_thrown:
  "api_fault E n = Some e \<Longrightarrow> apiRequest_PUT E n i u st = Inl e"
  by (simp add: apiRequest_PUT_def)

lemma mutationFn_cases:
  "(\<exists>e. mutationFn E d w = (Inl e, w)) \<or>
   (\<exists>r st. apiRequest_POST E 0 d (store w) = Inr (r, st) \<and>
            mutationFn E d w = run_batch E d r (w\<lparr>store := st\<rparr>))"
  by (simp add: mutationFn_def split: option.splits sum.splits prod.splits)

lemma run_batch_record:
  assumes r: "store w (rid r) = Some r" "status r = Pending"
    and run: "run_batch E d r w = (res, w')"
  shows "\<exists>t. store w' (rid r) = Some t \<and>
           (status t = Pending \<or>
            (\<exists>fa. failed_addresses t = Some fa \<and>
                  (status t = finalStatus fa (data_recipients d) \<or>
                   status t = Failed \<and> fa = map address (data_recipients d))))"
proof (cases "api_fault E (Suc 0)")
  case None
  from run show ?thesis
    by (auto simp: run_batch_def Let_def apiRequest_PUT_served None r)
next
  case (Some e)
  note first = this
  show ?thesis
  proof (cases "api_fault E 2")
    case None
    from run show ?thesis
      by (auto simp: run_batch_def Let_def apiRequest_PUT_thrown first
          apiRequest_PUT_served None r)
  next
    case (Some e2)
    from run r show ?thesis
      by (auto simp: run_batch_def Let_def apiRequest_PUT_thrown first Some)
  qed
qed


lemma mutationFn_record:
  assumes fresh: "store w (randomUUID E) = None"
    and run: "mutationFn E d w = (res, w')"
    and t: "store w' (randomUUID E) = Some t"
  shows "status t = Pending \<or>
         (\<exists>fa. failed_addresses t = Some fa \<and>
               (status t = finalStatus fa (data_recipients d) \<or>
                status t = Failed \<and> fa = map address (data_recipients d)))"
proof -
  from mutationFn_cases [of E d w] show ?thesis
  proof
    assume "\<exists>e. mutationFn E d w = (Inl e, w)"
    with run have "w' = w" by auto
    with fresh t show ?thesis by simp
  next
    assume "\<exists>r st. apiRequest_POST E 0 d (store w) = Inr (r, st) \<and>
                   mutationFn E d w = run_batch E d r (w\<lparr>store := st\<rparr>)"
    then obtain r st where post: "apiRequest_POST E 0 d (store w) = Inr (r, st)"
      and rb: "run_batch E d r (w\<lparr>store := st\<rparr>) = (res, w')"
      using run by auto
    from post have c: "rid r = randomUUID E" "st (rid r) = Some r" "status r = Pending"
      by (auto simp: apiRequest_POST_def createMultisendTransaction_def Let_def
          split: option.splits)
    from c(2) have "store (w\<lparr>store := st\<rparr>) (rid r) = Some r" by simp
    from run_batch_record [OF this c(3) rb] t c(1)
    show ?thesis by auto
  qed
qed

lemma terminal_record_classified:
  assumes "store w (randomUUID E) = None" "data_recipients d \<noteq> []"
    "mutationFn E d w = (res, w')" "store w' (randomUUID E) = Some t" "status t \<noteq> Pending"
  shows "\<exists>fa. failed_addresses t = Some fa \<and> status t = finalStatus fa (data_recipients d)"
proof -
  from mutationFn_record [OF assms(1,3,4)] assms(5)
  obtain fa where fa: "failed_addresses t = Some fa"
    and s: "status t = finalStatus fa (data_recipients d) \<or>
            status t = Failed \<and> fa = map address (data_recipients d)"
    by blast
  from assms(2) have "finalStatus (map address (data_recipients d)) (data_recipients d) = Failed"
    by (simp add: finalStatus_def)
  with fa s show ?thesis by auto
qed

text \<open>
  C2. After all recipients are processed the status is \<open>Confirmed\<close> exactly when no
  address failed, \<open>Failed\<close> exactly when as many addresses failed as there are
  recipients (the list not being empty), and \<open>PartiallyFailed\<close> in every other case;
  this is the status that a resolved mutation returns and stores, computed from the
  failed addresses of the finished loop. Whatever way a run over a list that is not empty
  ends, a record of it that is no longer pending has the status that this rule gives for
  the failed addresses stored in it.
\<close>

theorem terminal_status:
  "(finalStatus failed rs = Confirmed \<longleftrightarrow> failed = [])
   \<and> (rs \<noteq> [] \<longrightarrow> (finalStatus failed rs = Failed \<longleftrightarrow> length failed = length rs))
   \<and> (finalStatus failed rs = PartiallyFailed \<longleftrightarrow> failed \<noteq> [] \<and> length failed \<noteq> length rs)
   \<and> (\<forall>w out w'. mutationFn E d w = (Inr out, w') \<longrightarrow>
         outcome_failedTransactions out =
           failedTransactions (send_loop E d 0 (loop_start (trace w)))
         \<and> status (outcome_record out) =
           finalStatus (outcome_failedTransactions out) (data_recipients d)
         \<and> (\<exists>t. store w' (rid (outcome_record out)) = Some t
               \<and> status t = status (outcome_record out)
               \<and> failed_addresses t = Some (outcome_failedTransactions out)))
   \<and> (\<forall>w res w' t.
         store w (randomUUID E) = None \<and> data_recipients d \<noteq> []
         \<and> mutationFn E d w = (res, w')
         \<and> store w' (randomUUID E) = Some t \<and> status t \<noteq> Pending \<longrightarrow>
         (\<exists>fa. failed_addresses t = Some fa
            \<and> status t = finalStatus fa (data_recipients d)))"
proof (intro conjI allI impI)
  show "finalStatus failed rs = Confirmed \<longleftrightarrow> failed = []"
    by (simp add: finalStatus_def)
next
  assume "rs \<noteq> []"
  then show "finalStatus failed rs = Failed \<longleftrightarrow> length failed = length rs"
    by (auto simp: finalStatus_def)
next
  show "finalStatus failed rs = PartiallyFailed \<longleftrightarrow> failed \<noteq> [] \<and> length failed \<noteq> length rs"
    by (simp add: finalStatus_def)
next
  fix w out w'
  assume run: "mutationFn E d w = (Inr out, w')"
  from mutationFn_resolved [OF run]
  show "outcome_failedTransactions out =
          failedTransactions (send_loop E d 0 (loop_start (trace w)))"
    and "status (outcome_record out) =
          finalStatus (outcome_failedTransactions out) (data_recipients d)"
    and "\<exists>t. store w' (rid (outcome_record out)) = Some t
               \<and> status t = status (outcome_record out)
               \<and> failed_addresses t = Some (outcome_failedTransactions out)"
    by auto
next
  fix w res w' t
  assume "store w (randomUUID E) = None \<and> data_recipients d \<noteq> []
         \<and> mutationFn E d w = (res, w')
         \<and> store w' (randomUUID E) = Some t \<and> status t \<noteq> Pending"
  then show "\<exists>fa. failed_addresses t = Some fa
            \<and> status t = finalStatus fa (data_recipients d)"
    using terminal_record_classified by blast
qed

theorem terminal_status_witness:
  "[alice, bob, carol] \<noteq> []
   \<and> finalStatus [address bob] [alice, bob, carol] = PartiallyFailed
   \<and> finalStatus [address bob] [alice, bob, carol] \<noteq> Failed
   \<and> store empty_world (randomUUID second_declined) = None
   \<and> data_recipients (example_data [alice, bob, carol]) \<noteq> []
   \<and> (\<exists>out w' hs t. mutationFn second_declined (example_data [alice, bob, carol]) empty_world
                     = (Inr out, w')
        \<and> status (outcome_record out) = PartiallyFailed
        \<and> transaction_hashes (outcome_record out) = Some hs \<and> length hs = 2
        \<and> length (outcome_failedTransactions out) = 1
        \<and> store w' (randomUUID second_declined) = Some t
        \<and> status t = PartiallyFailed \<and> status t \<noteq> Pending
        \<and> failed_addresses t = Some [address bob]
        \<and> status t = finalStatus [address bob] (data_recipients (example_data [alice, bob, carol])))"
proof -
  let ?d = "example_data [alice, bob, carol]"
  from second_declined_run obtain out w' where
    run: "mutationFn second_declined ?d empty_world = (Inr out, w')"
    and f: "outcome_failedTransactions out = [address bob]"
    and h: "transaction_hashes (outcome_record out) = Some [''0xhash'', ''0xhash'']"
    and s: "status (outcome_record out) = PartiallyFailed"
    by blast
  have e: "store empty_world (randomUUID second_declined) = None" "data_recipients ?d \<noteq> []"
    by (simp_all add: empty_world_def example_data_def)
  note T = terminal_status [of "[address bob]" "[alice, bob, carol]" second_declined ?d]
  from T have p: "finalStatus [address bob] [alice, bob, carol] = PartiallyFailed"
    by simp
  from mutationFn_resolved [OF run] have i: "rid (outcome_record out) = randomUUID second_declined"
    by blast
  from T run obtain t where
    t: "store w' (rid (outcome_record out)) = Some t" "status t = status (outcome_record out)"
       "failed_addresses t = Some (outcome_failedTransactions out)"
    by blast
  from t s have np: "status t \<noteq> Pending" by simp
  from T e run t(1) i np obtain fa where
    "failed_addresses t = Some fa" "status t = finalStatus fa (data_recipients ?d)"
    by (metis (no_types, lifting))
  with t f have c: "status t = finalStatus [address bob] (data_recipients ?d)" by simp
  from run f h s p t e i np c show ?thesis
    by auto
qed

section \<open>Start preconditions\<close>

lemma handleSendToMultiple_violated:
  assumes "start_precondition_violated E c" "handleSendToMultiple E c = Inr (Some d)"
  shows "wallet_precondition_violated E"
  using assms
  by (auto simp: start_precondition_violated_def handleSendToMultiple_def
      split: if_splits option.splits sum.splits list.splits)

lemma mutationFn_wallet_violated:
  assumes "wallet_precondition_violated E"
  shows "\<exists>e. mutationFn E d w = (Inl e, w)"
  using assms
  by (auto simp: wallet_precondition_violated_def mutationFn_def
      split: option.splits sum.splits list.splits)

lemma handleSendToMultiple_declined:
  "handleSendToMultiple E c = Inr None \<Longrightarrow> \<not> confirm E"
  by (auto simp: handleSendToMultiple_def split: if_splits option.splits sum.splits list.splits)

text \<open>
  C3. When a start precondition is violated (no recipient, a token transfer without
  token address, no wallet provider, no authorized account, another chain than the
  expected one), a click on the send button leaves the record store and the trace as they
  were: no record is created and no transfer is attempted. The click never resolves to an
  outcome; once the user has confirmed the dialog it ends in an error, a destructive
  toast of the handler or the error thrown by the mutation. The mutation on its own
  throws before its \<open>POST\<close> whenever the wallet is missing, has no account or is on
  another chain.
\<close>

theorem start_preconditions:
  "(start_precondition_violated E c \<longrightarrow>
      snd (click_send E c w) = w
      \<and> (\<forall>out. fst (click_send E c w) \<noteq> Resolved out)
      \<and> (confirm E \<longrightarrow> (\<exists>title. fst (click_send E c w) = Toast title)
                        \<or> (\<exists>e. fst (click_send E c w) = Rejected e)))
   \<and> (wallet_precondition_violated E \<longrightarrow> (\<exists>e. mutationFn E d w = (Inl e, w)))"
proof (intro conjI impI allI)
  assume v: "start_precondition_violated E c"
  show "snd (click_send E c w) = w"
  proof (cases "handleSendToMultiple E c")
    case (Inl title)
    then show ?thesis by (simp add: click_send_def)
  next
    case (Inr r)
    show ?thesis
    proof (cases r)
      case None
      with Inr show ?thesis by (simp add: click_send_def)
    next
      case (Some md)
      with Inr v have "wallet_precondition_violated E"
        by (simp add: handleSendToMultiple_violated)
      then obtain e where "mutationFn E md w = (Inl e, w)"
        using mutationFn_wallet_violated by blast
      with Inr Some show ?thesis by (simp add: click_send_def)
    qed
  qed
next
  fix out
  assume v: "start_precondition_violated E c"
  show "fst (click_send E c w) \<noteq> Resolved out"
  proof (cases "handleSendToMultiple E c")
    case (Inl title)
    then show ?thesis by (simp add: click_send_def)
  next
    case (Inr r)
    show ?thesis
    proof (cases r)
      case None
      with Inr show ?thesis by (simp add: click_send_def)
    next
      case (Some md)
      with Inr v have "wallet_precondition_violated E"
        by (simp add: handleSendToMultiple_violated)
      then obtain e where "mutationFn E md w = (Inl e, w)"
        using mutationFn_wallet_violated by blast
      with Inr Some show ?thesis by (simp add: click_send_def)
    qed
  qed
next
  assume v: "start_precondition_violated E c" and yes: "confirm E"
  show "(\<exists>title. fst (click_send E c w) = Toast title) \<or> (\<exists>e. fst (click_send E c w) = Rejected e)"
  proof (cases "handleSendToMultiple E c")
    case (Inl title)
    then show ?thesis by (simp add: click_send_def)
  next
    case (Inr r)
    show ?thesis
    proof (cases r)
      case None
      with Inr yes show ?thesis using handleSendToMultiple_declined by blast
    next
      case (Some md)
      with Inr v have "wallet_precondition_violated E"
        by (simp add: handleSendToMultiple_violated)
      then obtain e where "mutationFn E md w = (Inl e, w)"
        using mutationFn_wallet_violated by blast
      with Inr Some show ?thesis by (simp add: click_send_def)
    qed
  qed
next
  assume "wallet_precondition_violated E"
  then show "\<exists>e. mutationFn E d w = (Inl e, w)"
    by (rule mutationFn_wallet_violated)
qed

theorem start_preconditions_witness:
  "start_precondition_violated wrong_chain (entry_form [alice] [] [])
   \<and> wallet_precondition_violated wrong_chain
   \<and> confirm wrong_chain
   \<and> snd (click_send wrong_chain (entry_form [alice] [] []) empty_world) = empty_world
   \<and> ((\<exists>title. fst (click_send wrong_chain (entry_form [alice] [] []) empty_world) = Toast title)
      \<or> (\<exists>e. fst (click_send wrong_chain (entry_form [alice] [] []) empty_world) = Rejected e))
   \<and> (\<exists>e. mutationFn wrong_chain (example_data [alice]) empty_world = (Inl e, empty_world))"
proof -
  have v: "start_precondition_violated wrong_chain (entry_form [alice] [] [])"
      "wallet_precondition_violated wrong_chain" "confirm wrong_chain"
    by (simp_all add: start_precondition_violated_def wallet_precondition_violated_def
        wrong_chain_def example_env_def)
  from start_preconditions [of wrong_chain "entry_form [alice] [] []" empty_world
      "example_data [alice]"] v
  show ?thesis by blast
qed

section \<open>The catch block of the mutation\<close>

lemma final_update_fails_run:
  "mutationFn final_update_fails (example_data [alice]) empty_world =
     (Inl (Error ''Failed to fetch''),
      \<lparr>store = [''record-1'' \<mapsto>
          \<lparr>data_recipients = [alice], data_tokenType = Native, data_tokenAddress = None,
           senderAddress = example_sender, rid = ''record-1'', status = Failed,
           transaction_hashes = Some [''0xhash''],
           failed_addresses = Some [address alice], gas_used = None\<rparr>],
       trace = events (send_loop final_update_fails (example_data [alice]) 0 (loop_start []))\<rparr>)"
  by (simp add: final_update_fails_def mutation_eval submit_eval example_eval parseFloat_eval)

lemma final_update_fails_loop:
  "failedTransactions (send_loop final_update_fails (example_data [alice]) 0 (loop_start [])) = []"
  by (simp add: final_update_fails_def mutation_eval submit_eval example_eval parseFloat_eval)

text \<open>
  C4, as the specification states it, fails: with one recipient whose transfer succeeds
  and a final \<open>PUT\<close> that throws, no address has failed, and yet the update of the
  catch block stores the recipient's address as failed.
\<close>

theorem catch_update_counterexample:
  "fst (mutationFn final_update_fails (example_data [alice]) empty_world)
     = Inl (Error ''Failed to fetch'')
   \<and> failedTransactions
       (send_loop final_update_fails (example_data [alice]) 0 (loop_start [])) = []
   \<and> map_option failed_addresses
       (store (snd (mutationFn final_update_fails (example_data [alice]) empty_world)) ''record-1'')
     = Some (Some [address alice])"
  by (simp add: final_update_fails_run final_update_fails_loop)

text \<open>
  C4, amended. When the final \<open>PUT\<close> throws, the catch block sends one more update:
  status \<open>Failed\<close>, the transaction hashes accumulated by the loop, and as failed
  addresses the addresses of all recipients. If that update is served, the error of the
  final \<open>PUT\<close> is thrown on to the caller; if it throws too, its own error is thrown
  and the record stays as it was created.
\<close>

theorem catch_update:
  assumes "window_ethereum E = Some ethereum"
    and "eth_accounts ethereum = Inr (a # as)"
    and "eth_chainId ethereum = Inr ''0x279f''"
    and "api_fault E 0 = None"
    and "api_fault E 1 = Some error"
  shows "(api_fault E 2 = None \<longrightarrow>
            mutationFn E d w =
              (Inl error,
               \<lparr>store = (store w)(randomUUID E \<mapsto>
                   (fst (createMultisendTransaction (randomUUID E) d (store w)))
                     \<lparr>status := Failed,
                      transaction_hashes :=
                        Some (transactionHashes (send_loop E d 0 (loop_start (trace w)))),
                      failed_addresses := Some (map address (data_recipients d))\<rparr>),
                trace = events (send_loop E d 0 (loop_start (trace w)))\<rparr>))
       \<and> (\<forall>error2. api_fault E 2 = Some error2 \<longrightarrow>
            mutationFn E d w =
              (Inl error2,
               \<lparr>store = (store w)(randomUUID E \<mapsto>
                   fst (createMultisendTransaction (randomUUID E) d (store w))),
                trace = events (send_loop E d 0 (loop_start (trace w)))\<rparr>))"
  using assms
  by (auto simp: mutationFn_def run_batch_def apiRequest_POST_def apiRequest_PUT_def
        createMultisendTransaction_def updateMultisendTransaction_def Let_def)

theorem catch_update_witness:
  "window_ethereum final_update_fails = Some example_wallet
   \<and> eth_accounts example_wallet = Inr [example_sender]
   \<and> eth_chainId example_wallet = Inr ''0x279f''
   \<and> api_fault final_update_fails 0 = None
   \<and> api_fault final_update_fails 1 = Some (Error ''Failed to fetch'')
   \<and> api_fault final_update_fails 2 = None
   \<and> fst (mutationFn final_update_fails (example_data [alice, bob]) empty_world)
        = Inl (Error ''Failed to fetch'')
   \<and> map_option failed_addresses
        (store (snd (mutationFn final_update_fails (example_data [alice, bob]) empty_world))
           ''record-1'')
        = Some (Some [address alice, address bob])
   \<and> api_fault both_updates_fail 1 = Some (Error ''Failed to fetch'')
   \<and> api_fault both_updates_fail 2 = Some (Error ''Service unavailable'')
   \<and> fst (mutationFn both_updates_fail (example_data [alice, bob]) empty_world)
        = Inl (Error ''Service unavailable'')
   \<and> map_option status
        (store (snd (mutationFn both_updates_fail (example_data [alice, bob]) empty_world))
           ''record-1'')
        = Some Pending"
proof -
  have w: "window_ethereum final_update_fails = Some example_wallet"
      "window_ethereum both_updates_fail = Some example_wallet"
      "eth_accounts example_wallet = Inr [example_sender]"
      "eth_chainId example_wallet = Inr ''0x279f''"
    by (simp_all add: final_update_fails_def both_updates_fail_def example_env_def
        example_wallet_def)
  have f: "api_fault final_update_fails 0 = None"
      "api_fault final_update_fails 1 = Some (Error ''Failed to fetch'')"
      "api_fault final_update_fails 2 = None"
      "randomUUID final_update_fails = ''record-1''"
    by (simp_all add: final_update_fails_def example_env_def)
  have g: "api_fault both_updates_fail 0 = None"
      "api_fault both_updates_fail 1 = Some (Error ''Failed to fetch'')"
      "api_fault both_updates_fail 2 = Some (Error ''Service unavailable'')"
      "randomUUID both_updates_fail = ''record-1''"
    by (simp_all add: both_updates_fail_def example_env_def)
  note a = catch_update [OF w(1) w(3) w(4) f(1) f(2), of "example_data [alice, bob]" empty_world]
  note b = catch_update [OF w(2) w(3) w(4) g(1) g(2), of "example_data [alice, bob]" empty_world]
  from a f(3) have ra:
    "fst (mutationFn final_update_fails (example_data [alice, bob]) empty_world)
        = Inl (Error ''Failed to fetch'')"
    "map_option failed_addresses
        (store (snd (mutationFn final_update_fails (example_data [alice, bob]) empty_world))
           ''record-1'')
        = Some (Some [address alice, address bob])"
    by (simp_all add: f(4) example_data_def)
  from b g(3) have rb:
    "fst (mutationFn both_updates_fail (example_data [alice, bob]) empty_world)
        = Inl (Error ''Service unavailable'')"
    "map_option status
        (store (snd (mutationFn both_updates_fail (example_data [alice, bob]) empty_world))
           ''record-1'')
        = Some Pending"
    by (simp_all add: g(4) createMultisendTransaction_def Let_def)
  from w f g ra rb show ?thesis by simp
qed

section \<open>The delay between submissions\<close>

lemma submit_no_loop_events: "filter loop_event (snd (submit E d i)) = []"
  by (auto simp: submit_def sendTransaction_def sendTransaction_try_def sendERC20Token_def
      sendERC20Token_try_def Let_def
      split: sum.splits list.splits option.splits prod.splits if_splits)

lemma loop_upto_events:
  "filter loop_event (events (loop_upto E d s k)) =
     filter loop_event (events s) @
     concat (map (\<lambda>i. Submit i #
                    (if \<not> isl (fst (submit E d i)) \<and> i < length (data_recipients d) - 1
                     then [Delay 2000] else []))
               [0..<k])"
proof (induction k)
  case 0
  then show ?case by simp
next
  case (Suc k)
  obtain r evs where sub: "submit E d k = (r, evs)"
    by (cases "submit E d k")
  from submit_no_loop_events [of E d k] sub have none: "filter loop_event evs = []"
    by simp
  from Suc sub none show ?case
    by (cases r) (simp_all add: loop_body_def)
qed

text \<open>
  C5, amended. The loop issues the submissions in order, and sleeps 2000 ms after a
  submission exactly when that submission succeeded and was not the last one; after a
  submission that failed the next one follows at once.
\<close>

theorem delay_after_success:
  "filter loop_event (events (send_loop E d 0 (loop_start []))) =
     concat (map (\<lambda>i. Submit i #
                    (if \<not> isl (fst (submit E d i)) \<and> i < length (data_recipients d) - 1
                     then [Delay 2000] else []))
               [0..<length (data_recipients d)])"
  by (simp add: send_loop_from_start loop_upto_events loop_start_def)

lemma second_declined_submit:
  "\<not> isl (fst (submit second_declined (example_data [alice, bob, carol]) 0))"
  "isl (fst (submit second_declined (example_data [alice, bob, carol]) (Suc 0)))"
  "\<not> isl (fst (submit second_declined (example_data [alice, bob, carol]) 2))"
  by (simp_all add: second_declined_def submit_eval example_eval parseFloat_eval)

theorem delay_after_success_witness:
  "filter loop_event
     (events (send_loop second_declined (example_data [alice, bob, carol]) 0 (loop_start [])))
   = [Submit 0, Delay 2000, Submit 1, Submit 2]"
proof -
  have n: "[0..<length (data_recipients (example_data [alice, bob, carol]))] = [0, 1, 2]"
    by (simp add: example_data_def upt_rec)
  have l: "length (data_recipients (example_data [alice, bob, carol])) = 3"
    by (simp add: example_data_def)
  show ?thesis
    unfolding delay_after_success [of second_declined "example_data [alice, bob, carol]"] n
    by (simp add: second_declined_submit l)
qed

text \<open>When every submission is accepted, the trace does follow the policy of the
  specification.\<close>

lemma accepted_run_waits:
  "waits_between_submissions NoSubmission
     (events (send_loop (example_env (\<lambda>i. True) (\<lambda>n. None))
                (example_data [alice, bob, carol]) 0 (loop_start [])))"
  by (simp add: mutation_eval submit_eval example_eval parseFloat_eval)

text \<open>
  C5, as the specification states it, fails: when the first of two submissions is
  declined, the second follows with no delay between them.
\<close>

theorem delay_between_submissions_counterexample:
  "isl (fst (submit first_declined (example_data [alice, bob]) 0))
   \<and> filter loop_event
       (events (send_loop first_declined (example_data [alice, bob]) 0 (loop_start [])))
     = [Submit 0, Submit 1]
   \<and> \<not> waits_between_submissions NoSubmission
         (events (send_loop first_declined (example_data [alice, bob]) 0 (loop_start [])))"
  by (simp add: first_declined_def mutation_eval submit_eval example_eval parseFloat_eval)

section \<open>The recipient list\<close>

text \<open>
  C6, as the specification states it, fails: an address of 42 characters that starts
  with \<open>0x\<close> and goes on with letters that are no hexadecimal digits is accepted.
\<close>

theorem addRecipient_hex_counterexample:
  "\<not> hex_address ''0xzzzzzzzzzzzzzzzzzzzzzzzzzzzzzzzzzzzzzzzz''
   \<and> addRecipient (entry_form [alice] ''0xzzzzzzzzzzzzzzzzzzzzzzzzzzzzzzzzzzzzzzzz'' ''1'')
     = Inr (entry_form
              [alice, \<lparr>address = ''0xzzzzzzzzzzzzzzzzzzzzzzzzzzzzzzzzzzzzzzzz'', amount = ''1''\<rparr>]
              [] [])"
  by (simp add: addRecipient_def entry_form_def hex_address_def isHexDigit_def parseFloat_eval
      toLowerCase_def toLowerCase_char_def alice_def)

text \<open>
  C6, amended. \<open>addRecipient\<close> fails with a validation error whenever the address or
  the amount is empty, the address does not start with \<open>0x\<close> or is not 42 characters
  long, or \<open>parseFloat\<close> of the amount is \<open>NaN\<close> or at most 0; hexadecimal digits are
  not checked. On success the new recipient is appended at the end of the list, the
  earlier entries staying in their order.
\<close>

theorem addRecipient_validation:
  "(newAddress c = [] \<or> newAmount c = []
      \<or> \<not> startsWith (newAddress c) ''0x'' \<or> length (newAddress c) \<noteq> 42
      \<or> isNaN (parseFloat (newAmount c)) \<or> le_zero (parseFloat (newAmount c))
      \<longrightarrow> (\<exists>title. addRecipient c = Inl title))
   \<and> (\<forall>c'. addRecipient c = Inr c' \<longrightarrow>
         recipients c' = recipients c @ [\<lparr>address = newAddress c, amount = newAmount c\<rparr>])"
  by (auto simp: addRecipient_def)

theorem addRecipient_validation_witness:
  "le_zero (parseFloat (newAmount (entry_form [alice] (address bob) ''-3'')))
   \<and> (\<exists>title. addRecipient (entry_form [alice] (address bob) ''-3'') = Inl title)
   \<and> addRecipient (entry_form [alice] (address bob) ''2'') = Inr (entry_form [alice, bob] [] [])
   \<and> recipients (entry_form [alice, bob] [] []) = recipients (entry_form [alice] (address bob) ''2'') @ [bob]"
proof -
  have z: "le_zero (parseFloat (newAmount (entry_form [alice] (address bob) ''-3'')))"
    by (simp add: entry_form_def parseFloat_eval)
  have ok: "addRecipient (entry_form [alice] (address bob) ''2'') = Inr (entry_form [alice, bob] [] [])"
    by (simp add: addRecipient_def entry_form_def parseFloat_eval toLowerCase_def
        toLowerCase_char_def alice_def bob_def)
  from addRecipient_validation [of "entry_form [alice] (address bob) ''-3''"] z
  have bad: "\<exists>title. addRecipient (entry_form [alice] (address bob) ''-3'') = Inl title"
    by blast
  from addRecipient_validation [of "entry_form [alice] (address bob) ''2''"] ok
  have "recipients (entry_form [alice, bob] [] []) =
          recipients (entry_form [alice] (address bob) ''2'') @
          [\<lparr>address = newAddress (entry_form [alice] (address bob) ''2''),
            amount = newAmount (entry_form [alice] (address bob) ''2'')\<rparr>]"
    by blast
  then have app: "recipients (entry_form [alice, bob] [] []) =
          recipients (entry_form [alice] (address bob) ''2'') @ [bob]"
    by (simp add: entry_form_def bob_def)
  from z bad ok app show ?thesis by blast
qed

text \<open>
  C7. On the three lines of the example the import keeps two recipients, not one: the
  row with the amount \<open>-3\<close> passes, since the import asks only that the amount is not
  \<open>NaN\<close>, while \<open>addRecipient\<close> refuses the same address and amount. Likewise a row
  with an address that is in the list already is imported, while \<open>addRecipient\<close>
  refuses it as a duplicate.
\<close>

theorem csv_import_keeps_nonpositive_amount:
  "csv_recipients csv_example =
     [\<lparr>address = ''0x1111111111111111111111111111111111111111'', amount = ''1.5''\<rparr>,
      \<lparr>address = ''0x2222222222222222222222222222222222222222'', amount = ''-3''\<rparr>]
   \<and> handleCSVUpload (entry_form [] [] []) csv_example =
       Inr (entry_form
              [\<lparr>address = ''0x1111111111111111111111111111111111111111'', amount = ''1.5''\<rparr>,
               \<lparr>address = ''0x2222222222222222222222222222222222222222'', amount = ''-3''\<rparr>]
              [] [])
   \<and> addRecipient (entry_form [] ''0x2222222222222222222222222222222222222222'' ''-3'')
       = Inl ''Invalid Amount''
   \<and> handleCSVUpload (entry_form [alice] [] [])
         ''0x1111111111111111111111111111111111111111,1.5'' =
       Inr (entry_form [alice, alice] [] [])
   \<and> addRecipient (entry_form [alice] ''0x1111111111111111111111111111111111111111'' ''1.5'')
       = Inl ''Duplicate Address''"
  by (simp add: handleCSVUpload_def csv_eval csv_example_def entry_form_def addRecipient_def
      parseFloat_eval alice_def toLowerCase_def toLowerCase_char_def)


theorem csv_import_keeps_nonpositive_amount_witness:
  "length (csv_recipients csv_example) = 2
   \<and> map amount (csv_recipients csv_example) = [''1.5'', ''-3'']
   \<and> (\<exists>c. handleCSVUpload (entry_form [] [] []) csv_example = Inr c \<and> length (recipients c) = 2)"
  using csv_import_keeps_nonpositive_amount by (simp add: entry_form_def)

text \<open>
  C8. An address that equals, letter case aside, the address of a recipient already in
  the list is never added: \<open>addRecipient\<close> fails and the list stays as it is. The
  failure is the duplicate-address error whenever the entry passes the checks that come
  before the duplicate check (both fields filled in, \<open>0x\<close> and 42 characters, an
  amount above 0).
\<close>

theorem duplicate_address_rejected:
  assumes "list_ex (\<lambda>r. toLowerCase (address r) = toLowerCase (newAddress c)) (recipients c)"
  shows "(\<exists>title. addRecipient c = Inl title)
       \<and> (newAddress c \<noteq> [] \<and> newAmount c \<noteq> []
            \<and> startsWith (newAddress c) ''0x'' \<and> length (newAddress c) = 42
            \<and> \<not> isNaN (parseFloat (newAmount c)) \<and> \<not> le_zero (parseFloat (newAmount c))
          \<longrightarrow> addRecipient c = Inl ''Duplicate Address'')"
  using assms by (auto simp: addRecipient_def)

theorem duplicate_address_rejected_witness:
  "list_ex (\<lambda>r. toLowerCase (address r) = toLowerCase (newAddress (entry_form [dave] dave_in_capitals ''2'')))
     (recipients (entry_form [dave] dave_in_capitals ''2''))
   \<and> dave_in_capitals \<noteq> address dave
   \<and> newAddress (entry_form [dave] dave_in_capitals ''2'') \<noteq> []
   \<and> newAmount (entry_form [dave] dave_in_capitals ''2'') \<noteq> []
   \<and> startsWith (newAddress (entry_form [dave] dave_in_capitals ''2'')) ''0x''
   \<and> length (newAddress (entry_form [dave] dave_in_capitals ''2'')) = 42
   \<and> \<not> isNaN (parseFloat (newAmount (entry_form [dave] dave_in_capitals ''2'')))
   \<and> \<not> le_zero (parseFloat (newAmount (entry_form [dave] dave_in_capitals ''2'')))
   \<and> addRecipient (entry_form [dave] dave_in_capitals ''2'') = Inl ''Duplicate Address''"
proof -
  have d: "list_ex (\<lambda>r. toLowerCase (address r) = toLowerCase (newAddress (entry_form [dave] dave_in_capitals ''2'')))
     (recipients (entry_form [dave] dave_in_capitals ''2''))"
    by (simp add: entry_form_def dave_def dave_in_capitals_def toLowerCase_def toLowerCase_char_def)
  have v: "dave_in_capitals \<noteq> address dave"
    "newAddress (entry_form [dave] dave_in_capitals ''2'') \<noteq> []"
    "newAmount (entry_form [dave] dave_in_capitals ''2'') \<noteq> []"
    "startsWith (newAddress (entry_form [dave] dave_in_capitals ''2'')) ''0x''"
    "length (newAddress (entry_form [dave] dave_in_capitals ''2'')) = 42"
    "\<not> isNaN (parseFloat (newAmount (entry_form [dave] dave_in_capitals ''2'')))"
    "\<not> le_zero (parseFloat (newAmount (entry_form [dave] dave_in_capitals ''2'')))"
    by (simp_all add: entry_form_def dave_def dave_in_capitals_def parseFloat_eval)
  from duplicate_address_rejected [OF d] v
  have "addRecipient (entry_form [dave] dave_in_capitals ''2'') = Inl ''Duplicate Address''"
    by blast
  with d v show ?thesis by blast
qed

section \<open>The checks of the submitter\<close>

lemma sendERC20Token_transfer_after_balance:
  assumes "Transfer t a n f \<in> set (snd (sendERC20Token W tokenAddr to amt))"
  shows "\<exists>balance. balanceOf W t f = Inr balance \<and> toBN_lt W balance n = Inr False
           \<and> snd (sendERC20Token W tokenAddr to amt) = [BalanceOf t f, Transfer t a n f]"
  using assms
  by (auto simp: sendERC20Token_def sendERC20Token_try_def
      split: if_splits sum.splits list.splits option.splits)

lemma sendERC20Token_reaches_comparison:
  assumes "has_ethereum W" "getAccounts W = Inr (account0 # accounts)"
    "isAddress W ta" "isAddress W to"
    "\<not> isNaN (parseFloat amt)" "\<not> le_zero (parseFloat amt)"
    "toWei W amt = Inr amountInWei" "balanceOf W ta account0 = Inr balance"
  shows "sendERC20Token W (Some ta) to amt =
          (case toBN_lt W balance amountInWei of
             Inl e \<Rightarrow> (Inl (sendERC20Token_catch e), [BalanceOf ta account0])
           | Inr below \<Rightarrow>
               if below
               then (Inl (sendERC20Token_catch (Error ''Insufficient token balance'')),
                     [BalanceOf ta account0])
               else (case transfer_send W ta to amountInWei account0 of
                       Inl e \<Rightarrow> (Inl (sendERC20Token_catch e),
                                 [BalanceOf ta account0, Transfer ta to amountInWei account0])
                     | Inr h \<Rightarrow> (Inr h,
                                 [BalanceOf ta account0, Transfer ta to amountInWei account0])))"
  using assms
  by (simp add: sendERC20Token_def sendERC20Token_try_def split: sum.splits)

lemma insufficient_balance_rethrown:
  "sendERC20Token_catch (Error ''Insufficient token balance'') =
     Error ''Token transfer failed: Insufficient token balance''"
  by (simp add: sendERC20Token_catch_def Error_def message_includes_def
      message_or_unknown_def startsWith_def)

text \<open>
  C9. Assumption on the library: \<open>web3.utils.toBN\<close> is there and its \<open>lt\<close> compares the
  two numbers (\<open>toBN_lt W balance amountInWei = Inr (balance < amountInWei)\<close>); the
  sources do not fix the version of web3. Under it, a token transfer whose arguments pass
  validation queries the balance of the sender on the token contract first; when that
  balance is below the amount to send, the call fails with the insufficient-token-balance
  error (its message, wrapped by the catch block, is
  \<open>Token transfer failed: Insufficient token balance\<close>) and the wallet is not asked to
  sign a transfer. Without any assumption: the wallet is asked to sign a transfer only
  right after a balance query whose result the comparison did not report as below the
  amount, and a comparison that throws ends the call with the error of the catch block
  and no transfer.
\<close>

theorem insufficient_token_balance:
  "(has_ethereum W \<and> getAccounts W = Inr (account0 # accounts)
      \<and> isAddress W ta \<and> isAddress W to
      \<and> \<not> isNaN (parseFloat amt) \<and> \<not> le_zero (parseFloat amt)
      \<and> toWei W amt = Inr amountInWei
      \<and> balanceOf W ta account0 = Inr balance \<and> balance < amountInWei
      \<and> toBN_lt W balance amountInWei = Inr (balance < amountInWei)
    \<longrightarrow> sendERC20Token W (Some ta) to amt =
          (Inl (Error ''Token transfer failed: Insufficient token balance''),
           [BalanceOf ta account0]))
   \<and> (\<forall>t a n f. Transfer t a n f \<in> set (snd (sendERC20Token W tokenAddr to amt)) \<longrightarrow>
         (\<exists>b. balanceOf W t f = Inr b \<and> toBN_lt W b n = Inr False
            \<and> (toBN_lt W b n = Inr (b < n) \<longrightarrow> n \<le> b)
            \<and> snd (sendERC20Token W tokenAddr to amt) = [BalanceOf t f, Transfer t a n f]))
   \<and> (\<forall>e. has_ethereum W \<and> getAccounts W = Inr (account0 # accounts)
         \<and> isAddress W ta \<and> isAddress W to
         \<and> \<not> isNaN (parseFloat amt) \<and> \<not> le_zero (parseFloat amt)
         \<and> toWei W amt = Inr amountInWei
         \<and> balanceOf W ta account0 = Inr balance
         \<and> toBN_lt W balance amountInWei = Inl e
       \<longrightarrow> sendERC20Token W (Some ta) to amt =
             (Inl (sendERC20Token_catch e), [BalanceOf ta account0]))"
proof (intro conjI impI allI)
  assume a: "has_ethereum W \<and> getAccounts W = Inr (account0 # accounts)
      \<and> isAddress W ta \<and> isAddress W to
      \<and> \<not> isNaN (parseFloat amt) \<and> \<not> le_zero (parseFloat amt)
      \<and> toWei W amt = Inr amountInWei
      \<and> balanceOf W ta account0 = Inr balance \<and> balance < amountInWei
      \<and> toBN_lt W balance amountInWei = Inr (balance < amountInWei)"
  then have r: "sendERC20Token W (Some ta) to amt =
          (case toBN_lt W balance amountInWei of
             Inl e \<Rightarrow> (Inl (sendERC20Token_catch e), [BalanceOf ta account0])
           | Inr below \<Rightarrow>
               if below
               then (Inl (sendERC20Token_catch (Error ''Insufficient token balance'')),
                     [BalanceOf ta account0])
               else (case transfer_send W ta to amountInWei account0 of
                       Inl e \<Rightarrow> (Inl (sendERC20Token_catch e),
                                 [BalanceOf ta account0, Transfer ta to amountInWei account0])
                     | Inr h \<Rightarrow> (Inr h,
                                 [BalanceOf ta account0, Transfer ta to amountInWei account0])))"
    by (intro sendERC20Token_reaches_comparison) simp_all
  from a have "toBN_lt W balance amountInWei = Inr True" by simp
  with r show "sendERC20Token W (Some ta) to amt =
          (Inl (Error ''Token transfer failed: Insufficient token balance''),
           [BalanceOf ta account0])"
    by (simp add: insufficient_balance_rethrown)
next
  fix t a n f
  assume "Transfer t a n f \<in> set (snd (sendERC20Token W tokenAddr to amt))"
  from sendERC20Token_transfer_after_balance [OF this]
  show "\<exists>b. balanceOf W t f = Inr b \<and> toBN_lt W b n = Inr False
            \<and> (toBN_lt W b n = Inr (b < n) \<longrightarrow> n \<le> b)
            \<and> snd (sendERC20Token W tokenAddr to amt) = [BalanceOf t f, Transfer t a n f]"
    by auto
next
  fix e
  assume a: "has_ethereum W \<and> getAccounts W = Inr (account0 # accounts)
         \<and> isAddress W ta \<and> isAddress W to
         \<and> \<not> isNaN (parseFloat amt) \<and> \<not> le_zero (parseFloat amt)
         \<and> toWei W amt = Inr amountInWei
         \<and> balanceOf W ta account0 = Inr balance
         \<and> toBN_lt W balance amountInWei = Inl e"
  then have r: "sendERC20Token W (Some ta) to amt =
          (case toBN_lt W balance amountInWei of
             Inl e \<Rightarrow> (Inl (sendERC20Token_catch e), [BalanceOf ta account0])
           | Inr below \<Rightarrow>
               if below
               then (Inl (sendERC20Token_catch (Error ''Insufficient token balance'')),
                     [BalanceOf ta account0])
               else (case transfer_send W ta to amountInWei account0 of
                       Inl e \<Rightarrow> (Inl (sendERC20Token_catch e),
                                 [BalanceOf ta account0, Transfer ta to amountInWei account0])
                     | Inr h \<Rightarrow> (Inr h,
                                 [BalanceOf ta account0, Transfer ta to amountInWei account0])))"
    by (intro sendERC20Token_reaches_comparison) simp_all
  with a show "sendERC20Token W (Some ta) to amt =
             (Inl (sendERC20Token_catch e), [BalanceOf ta account0])"
    by simp
qed

theorem insufficient_token_balance_witness:
  "has_ethereum (example_web3 True)
   \<and> getAccounts (example_web3 True) = Inr [example_sender]
   \<and> isAddress (example_web3 True) example_token
   \<and> isAddress (example_web3 True) (address alice)
   \<and> \<not> isNaN (parseFloat (amount alice)) \<and> \<not> le_zero (parseFloat (amount alice))
   \<and> toWei (example_web3 True) (amount alice) = Inr 1000
   \<and> balanceOf (example_web3 True) example_token example_sender = Inr 400
   \<and> (400 :: nat) < 1000
   \<and> toBN_lt (example_web3 True) 400 1000 = Inr ((400 :: nat) < 1000)
   \<and> sendERC20Token (example_web3 True) (Some example_token) (address alice) (amount alice) =
        (Inl (Error ''Token transfer failed: Insufficient token balance''),
         [BalanceOf example_token example_sender])
   \<and> Transfer example_token (address alice) 1000 example_sender
        \<in> set (snd (sendERC20Token funded_web3 (Some example_token) (address alice) (amount alice)))
   \<and> balanceOf funded_web3 example_token example_sender = Inr 5000
   \<and> toBN_lt funded_web3 5000 1000 = Inr ((5000 :: nat) < 1000)
   \<and> snd (sendERC20Token funded_web3 (Some example_token) (address alice) (amount alice)) =
        [BalanceOf example_token example_sender,
         Transfer example_token (address alice) 1000 example_sender]
   \<and> toBN_lt web3_without_toBN 400 1000 = Inl toBN_missing
   \<and> sendERC20Token web3_without_toBN (Some example_token) (address alice) (amount alice) =
        (Inl (Error ''Token transfer failed: web3.utils.toBN is not a function''),
         [BalanceOf example_token example_sender])"
proof -
  have h: "has_ethereum (example_web3 True)"
    "getAccounts (example_web3 True) = Inr [example_sender]"
    "isAddress (example_web3 True) example_token"
    "isAddress (example_web3 True) (address alice)"
    "\<not> isNaN (parseFloat (amount alice))" "\<not> le_zero (parseFloat (amount alice))"
    "toWei (example_web3 True) (amount alice) = Inr 1000"
    "balanceOf (example_web3 True) example_token example_sender = Inr 400"
    "(400 :: nat) < 1000"
    "toBN_lt (example_web3 True) 400 1000 = Inr ((400 :: nat) < 1000)"
    by (simp_all add: example_eval example_token_def parseFloat_eval)
  have g: "has_ethereum web3_without_toBN"
    "getAccounts web3_without_toBN = Inr [example_sender]"
    "isAddress web3_without_toBN example_token"
    "isAddress web3_without_toBN (address alice)"
    "toWei web3_without_toBN (amount alice) = Inr 1000"
    "balanceOf web3_without_toBN example_token example_sender = Inr 400"
    "toBN_lt web3_without_toBN 400 1000 = Inl toBN_missing"
    by (simp_all add: web3_without_toBN_def example_eval example_token_def)
  have c: "sendERC20Token_catch toBN_missing =
      Error ''Token transfer failed: web3.utils.toBN is not a function''"
    by (simp add: sendERC20Token_catch_def toBN_missing_def Error_def message_includes_def
        message_or_unknown_def startsWith_def)
  have m: "Transfer example_token (address alice) 1000 example_sender
        \<in> set (snd (sendERC20Token funded_web3 (Some example_token) (address alice) (amount alice)))"
    by (simp add: funded_web3_def submit_eval example_eval example_token_def parseFloat_eval)
  have b: "balanceOf funded_web3 example_token example_sender = Inr 5000"
    "toBN_lt funded_web3 5000 1000 = Inr ((5000 :: nat) < 1000)"
    by (simp_all add: funded_web3_def example_web3_def)
  from insufficient_token_balance [of "example_web3 True" example_sender "[]" example_token
      "address alice" "amount alice" 1000 400] h
  have low: "sendERC20Token (example_web3 True) (Some example_token) (address alice) (amount alice) =
        (Inl (Error ''Token transfer failed: Insufficient token balance''),
         [BalanceOf example_token example_sender])"
    by blast
  from insufficient_token_balance [where W = funded_web3 and tokenAddr = "Some example_token"
      and to = "address alice" and amt = "amount alice"] m
  have high: "snd (sendERC20Token funded_web3 (Some example_token) (address alice) (amount alice)) =
        [BalanceOf example_token example_sender,
         Transfer example_token (address alice) 1000 example_sender]"
    by blast
  from insufficient_token_balance [of web3_without_toBN example_sender "[]" example_token
      "address alice" "amount alice" 1000 400] g h(5,6)
  have "sendERC20Token web3_without_toBN (Some example_token) (address alice) (amount alice) =
        (Inl (sendERC20Token_catch toBN_missing), [BalanceOf example_token example_sender])"
    by blast
  with c have thrown:
    "sendERC20Token web3_without_toBN (Some example_token) (address alice) (amount alice) =
        (Inl (Error ''Token transfer failed: web3.utils.toBN is not a function''),
         [BalanceOf example_token example_sender])"
    by simp
  from h m b low high g(7) thrown show ?thesis by blast
qed

text \<open>
  C10. A native or token transfer whose recipient address (or token address) is refused
  by \<open>isAddress\<close>, or whose amount does not parse to a number above 0, throws before
  the wallet is asked to sign or to broadcast anything: no gas estimate, no balance
  query and no transfer is requested. With a wallet provider present and an account
  connected, which the function checks first, the error thrown is the invalid-address or
  invalid-amount error.
\<close>

theorem invalid_arguments_rejected:
  "(\<not> isAddress W to \<or> isNaN (parseFloat val) \<or> le_zero (parseFloat val) \<longrightarrow>
      (\<exists>e. sendTransaction W to val data = (Inl e, []))
      \<and> (has_ethereum W \<and> getAccounts W = Inr (account0 # accounts) \<longrightarrow>
           sendTransaction W to val data =
             (Inl (Error (if \<not> isAddress W to then ''Invalid recipient address: '' @ to
                          else ''Invalid amount: '' @ val)), [])))
   \<and> (\<not> isAddress W ta \<or> \<not> isAddress W to
        \<or> isNaN (parseFloat val) \<or> le_zero (parseFloat val) \<longrightarrow>
      (\<exists>e. sendERC20Token W (Some ta) to val = (Inl e, []))
      \<and> (has_ethereum W \<and> getAccounts W = Inr (account0 # accounts) \<longrightarrow>
           sendERC20Token W (Some ta) to val =
             (Inl (Error (if \<not> isAddress W ta then ''Invalid token address: '' @ ta
                          else if \<not> isAddress W to then ''Invalid recipient address: '' @ to
                          else ''Invalid amount: '' @ val)), [])))"
  by (auto simp: sendTransaction_def sendERC20Token_def split: sum.splits list.splits)

theorem invalid_arguments_rejected_witness:
  "\<not> isAddress (example_web3 True) ''notanaddress''
   \<and> isAddress (example_web3 True) example_token
   \<and> isAddress (example_web3 True) (address alice)
   \<and> le_zero (parseFloat ''-3'')
   \<and> has_ethereum (example_web3 True)
   \<and> getAccounts (example_web3 True) = Inr [example_sender]
   \<and> sendTransaction (example_web3 True) ''notanaddress'' ''2'' None =
        (Inl (Error ''Invalid recipient address: notanaddress''), [])
   \<and> sendERC20Token (example_web3 True) (Some example_token) (address alice) ''-3'' =
        (Inl (Error ''Invalid amount: -3''), [])"
proof -
  have h: "\<not> isAddress (example_web3 True) ''notanaddress''"
    "isAddress (example_web3 True) example_token"
    "isAddress (example_web3 True) (address alice)"
    "le_zero (parseFloat ''-3'')"
    "has_ethereum (example_web3 True)"
    "getAccounts (example_web3 True) = Inr [example_sender]"
    by (simp_all add: example_eval example_token_def parseFloat_eval)
  note T = invalid_arguments_rejected [where W = "example_web3 True"
      and ?account0.0 = example_sender and accounts = "[]"]
  from T [where to = "''notanaddress''" and val = "''2''" and data = None] h
  have a: "sendTransaction (example_web3 True) ''notanaddress'' ''2'' None =
        (Inl (Error ''Invalid recipient address: notanaddress''), [])"
    by simp
  from T [where ta = example_token and to = "address alice" and val = "''-3''"] h
  have b: "sendERC20Token (example_web3 True) (Some example_token) (address alice) ''-3'' =
        (Inl (Error ''Invalid amount: -3''), [])"
    by simp
  from h a b show ?thesis by blast
qed

end
